theory Spec2Isabelle
  imports Main
begin

section \<open>Chess puzzle trainer: the session controller\<close>

text \<open>
  The repository holds the controller twice: \<open>src/app.js\<close>, which draws the board itself
  and moves pieces by clicks, and \<open>src/unnamed/part_000\<close>, which hands the board to the
  chessboard.js widget and moves pieces by drag and drop. Both keep their state in
  module-level variables and write to the page through \<open>document.getElementById\<close> and
  \<open>alert\<close>. The embedding threads a record of those variables and of the page elements
  the code writes, together with the ordered list of the effects it emitted. A function
  that can throw returns a sum: \<open>Inl\<close> carries the error and the variables as they stand
  at the throw. The first part of the theory embeds \<open>src/app.js\<close>; the functions of
  \<open>src/unnamed/part_000\<close> follow under the same names with the suffix \<open>0\<close>.

  JavaScript strings are modelled by their UTF-8 bytes; the source never takes the length
  of a string, so nothing depends on the encoding.
\<close>

subsection \<open>Text constants outside ASCII\<close>

definition ldquo :: string where "ldquo = [CHR 0xE2, CHR 0x80, CHR 0x9C]"
definition rdquo :: string where "rdquo = [CHR 0xE2, CHR 0x80, CHR 0x9D]"
definition ndash :: string where "ndash = [CHR 0xE2, CHR 0x80, CHR 0x93]"
definition iexcl :: string where "iexcl = [CHR 0xC2, CHR 0xA1]"
definition iacute :: string where "iacute = [CHR 0xC3, CHR 0xAD]"
definition star_filled :: string where "star_filled = [CHR 0xE2, CHR 0x98, CHR 0x85]"
definition star_empty :: string where "star_empty = [CHR 0xE2, CHR 0x98, CHR 0x86]"

text \<open>Decimal rendering of a non-negative number inside a template string.\<close>

fun show_nat :: "nat \<Rightarrow> string" where
  "show_nat n =
     (if n < 10 then [''0123456789'' ! n]
      else show_nat (n div 10) @ [''0123456789'' ! (n mod 10)])"

subsection \<open>The puzzle catalog\<close>

record puzzle =
  name :: string
  fen :: string
  solution :: "string list"
  side :: string
  mateIn :: nat
  quote :: string

definition puzzles :: "puzzle list" where
  "puzzles =
    [\<lparr>name = ''El Molino'',
      fen = ''r1bq2r1/b4pk1/p1pp1p2/1p2pP2/1P2P1PB/3P4/1PPQ2P1/R3K2R w - - 0 1'',
      solution = [''Qh6+'', ''Kxh6'', ''Bxf6#''],
      side = ''w'',
      mateIn = 2,
      quote = ldquo @ ''La estrategia es el arte de la batalla.'' @ rdquo @ '' '' @ ndash
              @ '' Emanuel Lasker''\<rparr>,
     \<lparr>name = ''Mate simple'',
      fen = ''7k/5Q2/8/8/8/8/8/7K w - - 0 1'',
      solution = [''Qf8#''],
      side = ''w'',
      mateIn = 1,
      quote = ldquo @ ''Ver una jugada m'' @ [CHR 0xC3, CHR 0xA1]
              @ ''s all'' @ [CHR 0xC3, CHR 0xA1]
              @ '' que tu oponente marca la diferencia.'' @ rdquo\<rparr>,
     \<lparr>name = ''Dama y rey'',
      fen = ''6k1/5ppp/8/8/8/8/5PPP/6K1 w - - 0 1'',
      solution = [''Kd2'', ''Kf1'', ''Qd8#''],
      side = ''w'',
      mateIn = 3,
      quote = ldquo @ ''La paciencia y la visi'' @ [CHR 0xC3, CHR 0xB3]
              @ ''n a largo plazo triunfan.'' @ rdquo\<rparr>]"

text \<open>\<open>puzzles[index]\<close>: \<open>undefined\<close> past the end of the array.\<close>

definition puzzle_at :: "nat \<Rightarrow> puzzle option" where
  "puzzle_at index = (if index < length puzzles then Some (puzzles ! index) else None)"

subsection \<open>The rules engine (chess.js), taken as a parameter\<close>

text \<open>
  chess.js is a third-party library and not part of the repository. The controller uses
  ten of its operations; they are the fields of the record below, over an arbitrary type
  \<open>'g\<close> of engine values (\<open>game_fen\<close> stands for the method \<open>fen\<close>). \<open>move\<close> mutates
  the engine when it accepts and returns \<open>null\<close> when it refuses, leaving the engine as it
  was: the model returns the engine after the move, or \<open>None\<close>. \<open>board\<close> is the 8 by 8
  array, read at a row and a column.
\<close>

datatype color = White | Black

datatype piece_type = Pawn | Knight | Bishop | Rook | Queen | King

record piece =
  kind :: piece_type
  color :: color

record verbose_move =
  from_sq :: string
  to_sq :: string
  san :: string

record 'g engine =
  Chess :: "string \<Rightarrow> 'g"
  board :: "'g \<Rightarrow> nat \<Rightarrow> nat \<Rightarrow> piece option"
  get :: "'g \<Rightarrow> string \<Rightarrow> piece option"
  turn :: "'g \<Rightarrow> color"
  moves :: "'g \<Rightarrow> string \<Rightarrow> verbose_move list"
  move :: "'g \<Rightarrow> string \<Rightarrow> string \<Rightarrow> string \<Rightarrow> 'g option"
  in_checkmate :: "'g \<Rightarrow> bool"
  history :: "'g \<Rightarrow> string list"
  game_over :: "'g \<Rightarrow> bool"
  game_fen :: "'g \<Rightarrow> string"

text \<open>
  The one property of chess.js that a claim relies on: an accepted move is appended to the
  move history, so the number of half-moves grows by one.
\<close>

definition move_extends_history :: "'g engine \<Rightarrow> bool" where
  "move_extends_history E \<longleftrightarrow>
     (\<forall>g f t p g'. move E g f t p = Some g' \<longrightarrow>
        length (history E g') = length (history E g) + 1)"

subsection \<open>Session state, page elements and effects\<close>

datatype error = TypeError | RangeError

text \<open>
  The chessboard.js widget of \<open>src/unnamed/part_000\<close>, as the configuration it was
  created with (its three callbacks are functions of the model).
\<close>

record chessboard =
  cfg_position :: string
  cfg_orientation :: string
  cfg_draggable :: bool
  cfg_moveSpeed :: string

datatype effect =
    Alert string
  | SetTextContent string string
  | SetDisplay string string
  | RenderBoard
  | CreateBoard chessboard
  | DestroyBoard

record square_div =
  classList :: "string list"
  dataset_square :: string
  textContent :: string

text \<open>
  The variables and page elements that both files have; then the state of \<open>src/app.js\<close>,
  which adds the selection and the board it draws, and the state of
  \<open>src/unnamed/part_000\<close>, which adds the variable \<open>board\<close> holding the widget.
\<close>

record 'g common =
  currentPuzzleIndex :: nat
  hintCount :: nat
  starsEarned :: int
  game :: "'g option"
  info_text :: string
  stars_text :: string
  progress_text :: string
  nextBtn_display :: string
  effects :: "effect list"

record 'g session = "'g common" +
  selectedSquare :: "string option"
  legalMoves :: "string list"
  chessBoard :: "square_div list"

record 'g session0 = "'g common" +
  board_widget :: "chessboard option"

type_synonym 's outcome = "(error \<times> 's) + 's"

definition alert :: "string \<Rightarrow> ('g, 'z) common_scheme \<Rightarrow> ('g, 'z) common_scheme" where
  "alert msg s = s\<lparr>effects := effects s @ [Alert msg]\<rparr>"

definition set_info :: "string \<Rightarrow> ('g, 'z) common_scheme \<Rightarrow> ('g, 'z) common_scheme" where
  "set_info txt s =
     s\<lparr>info_text := txt, effects := effects s @ [SetTextContent ''info'' txt]\<rparr>"

definition set_stars :: "string \<Rightarrow> ('g, 'z) common_scheme \<Rightarrow> ('g, 'z) common_scheme" where
  "set_stars txt s =
     s\<lparr>stars_text := txt, effects := effects s @ [SetTextContent ''stars'' txt]\<rparr>"

definition set_progress :: "string \<Rightarrow> ('g, 'z) common_scheme \<Rightarrow> ('g, 'z) common_scheme" where
  "set_progress txt s =
     s\<lparr>progress_text := txt, effects := effects s @ [SetTextContent ''progress'' txt]\<rparr>"

definition set_nextBtn_display :: "string \<Rightarrow> ('g, 'z) common_scheme \<Rightarrow> ('g, 'z) common_scheme" where
  "set_nextBtn_display v s =
     s\<lparr>nextBtn_display := v, effects := effects s @ [SetDisplay ''nextBtn'' v]\<rparr>"

text \<open>\<open>String.prototype.repeat\<close>: a negative count throws a \<open>RangeError\<close>.\<close>

definition repeat :: "string \<Rightarrow> int \<Rightarrow> string option" where
  "repeat str n = (if n < 0 then None else Some (concat (replicate (nat n) str)))"

subsection \<open>renderBoard\<close>

definition unicodeMap :: "color \<Rightarrow> piece_type \<Rightarrow> string" where
  "unicodeMap c k =
     (case c of
        Black \<Rightarrow>
          (case k of
             Pawn \<Rightarrow> [CHR 0xE2, CHR 0x99, CHR 0x9F]
           | Rook \<Rightarrow> [CHR 0xE2, CHR 0x99, CHR 0x9C]
           | Knight \<Rightarrow> [CHR 0xE2, CHR 0x99, CHR 0x9E]
           | Bishop \<Rightarrow> [CHR 0xE2, CHR 0x99, CHR 0x9D]
           | Queen \<Rightarrow> [CHR 0xE2, CHR 0x99, CHR 0x9B]
           | King \<Rightarrow> [CHR 0xE2, CHR 0x99, CHR 0x9A])
      | White \<Rightarrow>
          (case k of
             Pawn \<Rightarrow> [CHR 0xE2, CHR 0x99, CHR 0x99]
           | Rook \<Rightarrow> [CHR 0xE2, CHR 0x99, CHR 0x96]
           | Knight \<Rightarrow> [CHR 0xE2, CHR 0x99, CHR 0x98]
           | Bishop \<Rightarrow> [CHR 0xE2, CHR 0x99, CHR 0x97]
           | Queen \<Rightarrow> [CHR 0xE2, CHR 0x99, CHR 0x95]
           | King \<Rightarrow> [CHR 0xE2, CHR 0x99, CHR 0x94]))"

text \<open>Algebraic coordinates: columns a to h, rows 8 down to 1.\<close>

definition coord_of :: "nat \<Rightarrow> nat \<Rightarrow> string" where
  "coord_of row col = [''abcdefgh'' ! col] @ show_nat (8 - row)"

definition render_square ::
  "(nat \<Rightarrow> nat \<Rightarrow> piece option) \<Rightarrow> string option \<Rightarrow> string list \<Rightarrow> nat \<Rightarrow> nat \<Rightarrow> square_div"
where
  "render_square position sel legal row col =
     (let coord = coord_of row col in
      \<lparr>classList =
         [''square'', if (row + col) mod 2 = 0 then ''light'' else ''dark'']
         @ (if Some coord = sel then [''highlight'']
            else if coord \<in> set legal then [''highlight'']
            else []),
       dataset_square = coord,
       textContent =
         (case position row col of
            Some p \<Rightarrow> unicodeMap (color p) (kind p)
          | None \<Rightarrow> [])\<rparr>)"

definition render_squares ::
  "(nat \<Rightarrow> nat \<Rightarrow> piece option) \<Rightarrow> string option \<Rightarrow> string list \<Rightarrow> square_div list"
where
  "render_squares position sel legal =
     concat (map (\<lambda>row. map (\<lambda>col. render_square position sel legal row col) [0..<8]) [0..<8])"

definition renderBoard :: "'g engine \<Rightarrow> 'g session \<Rightarrow> 'g session outcome" where
  "renderBoard E s =
     (let s1 = s\<lparr>chessBoard := []\<rparr> in
      case game s1 of
        None \<Rightarrow> Inl (TypeError, s1)
      | Some g \<Rightarrow>
          Inr (s1\<lparr>chessBoard := render_squares (board E g) (selectedSquare s1) (legalMoves s1),
                  effects := effects s1 @ [RenderBoard]\<rparr>))"

subsection \<open>loadPuzzle, showHint, updateStatus\<close>

definition info_line :: "nat \<Rightarrow> puzzle \<Rightarrow> string" where
  "info_line index p =
     ''Nivel '' @ show_nat (index + 1) @ '': '' @ name p @ '' '' @ ndash @ '' ''
     @ (if mateIn p = 1 then ''Mate en 1'' else ''Mate en '' @ show_nat (mateIn p))"

definition loadPuzzle :: "'g engine \<Rightarrow> nat \<Rightarrow> 'g session \<Rightarrow> 'g session outcome" where
  "loadPuzzle E index s =
     (let s1 = s\<lparr>hintCount := 0, starsEarned := 3\<rparr> in
      case puzzle_at index of
        None \<Rightarrow> Inl (TypeError, s1)
      | Some p \<Rightarrow>
          (case renderBoard E
                  (s1\<lparr>game := Some (Chess E (fen p)), selectedSquare := None,
                      legalMoves := []\<rparr>) of
             Inl e \<Rightarrow> Inl e
           | Inr s2 \<Rightarrow>
               Inr (set_nextBtn_display ''none''
                     (set_stars (star_filled @ star_filled @ star_filled)
                       (set_info (info_line index p) s2)))))"

definition hint_message :: "string \<Rightarrow> string" where
  "hint_message hintMove = ''Asesor'' @ iacute @ ''a: intenta jugar '' @ hintMove"

definition showHint :: "('g, 'z) common_scheme \<Rightarrow> ('g, 'z) common_scheme outcome" where
  "showHint s =
     (case puzzle_at (currentPuzzleIndex s) of
        None \<Rightarrow> Inl (TypeError, s)
      | Some p \<Rightarrow>
          if hintCount s \<ge> length (solution p) then Inr s
          else
            (let hintMove = solution p ! hintCount s;
                 s1 = alert (hint_message hintMove) s;
                 s2 = s1\<lparr>hintCount := hintCount s1 + 1\<rparr>;
                 s3 = s2\<lparr>starsEarned := max 1 (3 - int (hintCount s2))\<rparr>
             in case repeat star_filled (starsEarned s3) of
                  None \<Rightarrow> Inl (RangeError, s3)
                | Some filled \<Rightarrow>
                    (case repeat star_empty (3 - starsEarned s3) of
                       None \<Rightarrow> Inl (RangeError, s3)
                     | Some hollow \<Rightarrow> Inr (set_stars (filled @ hollow) s3))))"

definition solved_message :: "puzzle \<Rightarrow> string" where
  "solved_message p =
     iexcl @ ''Excelente! Has resuelto el puzzle '' @ [CHR 0x22] @ name p @ [CHR 0x22]
     @ ''.'' @ [CHR 0x0A] @ quote p"

definition too_many_moves_message :: string where
  "too_many_moves_message =
     ''Has realizado demasiados movimientos sin lograr mate. Reiniciando el puzzle.''"

definition updateStatus :: "'g engine \<Rightarrow> 'g session \<Rightarrow> 'g session outcome" where
  "updateStatus E s =
     (case renderBoard E s of
        Inl e \<Rightarrow> Inl e
      | Inr s1 \<Rightarrow>
          (case game s1 of
             None \<Rightarrow> Inl (TypeError, s1)
           | Some g \<Rightarrow>
               if in_checkmate E g then
                 (case puzzle_at (currentPuzzleIndex s1) of
                    None \<Rightarrow> Inl (TypeError, s1)
                  | Some p \<Rightarrow>
                      Inr (set_nextBtn_display ''inline-block''
                             (alert (solved_message p) s1)))
               else
                 (case puzzle_at (currentPuzzleIndex s1) of
                    None \<Rightarrow> Inl (TypeError, s1)
                  | Some p \<Rightarrow>
                      (let maxPlies = mateIn p * 2 in
                       if length (history E g) > maxPlies then
                         loadPuzzle E (currentPuzzleIndex s1)
                           (alert too_many_moves_message s1)
                       else Inr s1))))"

subsection \<open>handleSquareClick\<close>

text \<open>
  The first test of the handler, \<open>selectedSquare && legalMoves.includes(clickedSquare)\<close>:
  \<open>move_origin\<close> is the selected square when the test holds (an empty string is falsy).
\<close>

definition move_origin :: "'g session \<Rightarrow> string \<Rightarrow> string option" where
  "move_origin s clickedSquare =
     (case selectedSquare s of
        None \<Rightarrow> None
      | Some sq \<Rightarrow> if sq \<noteq> [] \<and> clickedSquare \<in> set (legalMoves s) then Some sq else None)"

definition handleSquareClick :: "'g engine \<Rightarrow> string \<Rightarrow> 'g session \<Rightarrow> 'g session outcome" where
  "handleSquareClick E clickedSquare s =
     (case move_origin s clickedSquare of
        Some sq \<Rightarrow>
          (case game s of
             None \<Rightarrow> Inl (TypeError, s)
           | Some g \<Rightarrow>
               (case move E g sq clickedSquare ''q'' of
                  Some g' \<Rightarrow>
                    updateStatus E
                      (s\<lparr>game := Some g', selectedSquare := None, legalMoves := []\<rparr>)
                | None \<Rightarrow> Inr s))
      | None \<Rightarrow>
          if selectedSquare s = Some clickedSquare then
            renderBoard E (s\<lparr>selectedSquare := None, legalMoves := []\<rparr>)
          else
            (case game s of
               None \<Rightarrow> Inl (TypeError, s)
             | Some g \<Rightarrow>
                 (case get E g clickedSquare of
                    Some p \<Rightarrow>
                      if color p = turn E g then
                        renderBoard E
                          (s\<lparr>selectedSquare := Some clickedSquare,
                             legalMoves := map to_sq (moves E g clickedSquare)\<rparr>)
                      else renderBoard E (s\<lparr>selectedSquare := None, legalMoves := []\<rparr>)
                  | None \<Rightarrow> renderBoard E (s\<lparr>selectedSquare := None, legalMoves := []\<rparr>))))"

subsection \<open>puzzleMatePlies, nextPuzzle, updateProgress, init\<close>

definition puzzleMatePlies :: "('g, 'z) common_scheme \<Rightarrow> nat option" where
  "puzzleMatePlies s = map_option (\<lambda>p. mateIn p * 2) (puzzle_at (currentPuzzleIndex s))"

definition updateProgress :: "('g, 'z) common_scheme \<Rightarrow> ('g, 'z) common_scheme" where
  "updateProgress s =
     (let total = length puzzles in
      set_progress
        (''Puzzle '' @ show_nat (currentPuzzleIndex s + 1) @ '' de '' @ show_nat total) s)"

definition catalog_complete_message :: string where
  "catalog_complete_message =
     iexcl @ ''Felicidades! Has completado todos los puzzles disponibles en esta demo.''"

definition nextPuzzle :: "'g engine \<Rightarrow> 'g session \<Rightarrow> 'g session outcome" where
  "nextPuzzle E s =
     (let s1 = s\<lparr>currentPuzzleIndex := currentPuzzleIndex s + 1\<rparr>;
          s2 = (if currentPuzzleIndex s1 \<ge> length puzzles
                then (alert catalog_complete_message s1)\<lparr>currentPuzzleIndex := 0\<rparr>
                else s1);
          s3 = updateProgress s2
      in loadPuzzle E (currentPuzzleIndex s3) s3)"

definition init :: "'g engine \<Rightarrow> 'g session \<Rightarrow> 'g session outcome" where
  "init E s =
     (case loadPuzzle E (currentPuzzleIndex s) s of
        Inl e \<Rightarrow> Inl e
      | Inr s1 \<Rightarrow> Inr (updateProgress s1))"

subsection \<open>Program start and reachable states\<close>

text \<open>
  The script's variables as their declarations initialise them, on a page whose elements
  hold any text (the page itself is not among the sources), before any effect.
\<close>

definition at_start :: "'g session \<Rightarrow> bool" where
  "at_start s \<longleftrightarrow>
     currentPuzzleIndex s = 0 \<and> hintCount s = 0 \<and> starsEarned s = 3 \<and> game s = None \<and>
     selectedSquare s = None \<and> legalMoves s = [] \<and> effects s = []"

definition blank_page :: "'g session" where
  "blank_page =
     \<lparr>currentPuzzleIndex = 0, hintCount = 0, starsEarned = 3, game = None,
      info_text = [], stars_text = [], progress_text = [], nextBtn_display = [],
      effects = [], selectedSquare = None, legalMoves = [], chessBoard = []\<rparr>"

text \<open>The variables after a call, whether it returned or threw.\<close>

definition state_after :: "'s outcome \<Rightarrow> 's" where
  "state_after r = (case r of Inl (e, s) \<Rightarrow> s | Inr s \<Rightarrow> s)"

inductive reachable :: "'g engine \<Rightarrow> 'g session \<Rightarrow> bool" for E :: "'g engine" where
  reach_init: "at_start s0 \<Longrightarrow> reachable E (state_after (init E s0))"
| reach_load: "reachable E s \<Longrightarrow> reachable E (state_after (loadPuzzle E i s))"
| reach_hint: "reachable E s \<Longrightarrow> reachable E (state_after (showHint s))"
| reach_click: "reachable E s \<Longrightarrow> reachable E (state_after (handleSquareClick E sq s))"
| reach_next: "reachable E s \<Longrightarrow> reachable E (state_after (nextPuzzle E s))"

text \<open>
  The selection invariant: nothing selected and no legal target, or a selected square whose
  legal targets are the destinations the engine reports for it in the current position.
\<close>

definition selection_consistent :: "'g engine \<Rightarrow> 'g session \<Rightarrow> bool" where
  "selection_consistent E s \<longleftrightarrow>
     (case selectedSquare s of
        None \<Rightarrow> legalMoves s = []
      | Some sq \<Rightarrow>
          (case game s of
             None \<Rightarrow> False
           | Some g \<Rightarrow> legalMoves s = map to_sq (moves E g sq)))"

text \<open>How many times the board has been rendered so far.\<close>

definition render_count :: "'g session \<Rightarrow> nat" where
  "render_count s = length (filter (\<lambda>e. e = RenderBoard) (effects s))"

text \<open>The session without the record of emitted effects.\<close>

definition forget_effects :: "('g, 'z) common_scheme \<Rightarrow> ('g, 'z) common_scheme" where
  "forget_effects s = s\<lparr>effects := []\<rparr>"

text \<open>Repeated calls of \<open>showHint\<close>, stopping at the first throw.\<close>

fun hints :: "nat \<Rightarrow> ('g, 'z) common_scheme \<Rightarrow> ('g, 'z) common_scheme outcome" where
  "hints 0 s = Inr s"
| "hints (Suc h) s = (case hints h s of Inl e \<Rightarrow> Inl e | Inr s1 \<Rightarrow> showHint s1)"

subsection \<open>The functions of \<open>src/unnamed/part_000\<close>\<close>

text \<open>
  The catalog of this file differs from the one above in one place: the FEN of the first
  puzzle stops after the side to move.
\<close>

definition puzzles0 :: "puzzle list" where
  "puzzles0 =
    [\<lparr>name = ''El Molino'',
      fen = ''r1bq2r1/b4pk1/p1pp1p2/1p2pP2/1P2P1PB/3P4/1PPQ2P1/R3K2R w'',
      solution = [''Qh6+'', ''Kxh6'', ''Bxf6#''],
      side = ''w'',
      mateIn = 2,
      quote = ldquo @ ''La estrategia es el arte de la batalla.'' @ rdquo @ '' '' @ ndash
              @ '' Emanuel Lasker''\<rparr>,
     \<lparr>name = ''Mate simple'',
      fen = ''7k/5Q2/8/8/8/8/8/7K w - - 0 1'',
      solution = [''Qf8#''],
      side = ''w'',
      mateIn = 1,
      quote = ldquo @ ''Ver una jugada m'' @ [CHR 0xC3, CHR 0xA1]
              @ ''s all'' @ [CHR 0xC3, CHR 0xA1]
              @ '' que tu oponente marca la diferencia.'' @ rdquo\<rparr>,
     \<lparr>name = ''Dama y rey'',
      fen = ''6k1/5ppp/8/8/8/8/5PPP/6K1 w - - 0 1'',
      solution = [''Kd2'', ''Kf1'', ''Qd8#''],
      side = ''w'',
      mateIn = 3,
      quote = ldquo @ ''La paciencia y la visi'' @ [CHR 0xC3, CHR 0xB3]
              @ ''n a largo plazo triunfan.'' @ rdquo\<rparr>]"

definition puzzle0_at :: "nat \<Rightarrow> puzzle option" where
  "puzzle0_at index = (if index < length puzzles0 then Some (puzzles0 ! index) else None)"

text \<open>
  \<open>loadPuzzle\<close> destroys the widget held by \<open>board\<close>, if there is one, and creates a new
  one on the puzzle's FEN.
\<close>

definition loadPuzzle0 :: "'g engine \<Rightarrow> nat \<Rightarrow> 'g session0 \<Rightarrow> 'g session0 outcome" where
  "loadPuzzle0 E index s =
     (let s1 = s\<lparr>hintCount := 0, starsEarned := 3\<rparr> in
      case puzzle0_at index of
        None \<Rightarrow> Inl (TypeError, s1)
      | Some p \<Rightarrow>
          (let s2 = s1\<lparr>game := Some (Chess E (fen p))\<rparr>;
               s3 = (case board_widget s2 of
                       Some b \<Rightarrow> s2\<lparr>effects := effects s2 @ [DestroyBoard]\<rparr>
                     | None \<Rightarrow> s2);
               w = \<lparr>cfg_position = fen p,
                    cfg_orientation = (if side p = ''w'' then ''white'' else ''black''),
                    cfg_draggable = True,
                    cfg_moveSpeed = ''fast''\<rparr>;
               s4 = s3\<lparr>board_widget := Some w, effects := effects s3 @ [CreateBoard w]\<rparr>
           in Inr (set_nextBtn_display ''none''
                    (set_stars (star_filled @ star_filled @ star_filled)
                      (set_info (info_line index p) s4)))))"

definition showHint0 :: "'g session0 \<Rightarrow> 'g session0 outcome" where
  "showHint0 s =
     (case puzzle0_at (currentPuzzleIndex s) of
        None \<Rightarrow> Inl (TypeError, s)
      | Some p \<Rightarrow>
          if hintCount s \<ge> length (solution p) then Inr s
          else
            (let hintMove = solution p ! hintCount s;
                 s1 = alert (hint_message hintMove) s;
                 s2 = s1\<lparr>hintCount := hintCount s1 + 1\<rparr>;
                 s3 = s2\<lparr>starsEarned := max 1 (3 - int (hintCount s2))\<rparr>
             in case repeat star_filled (starsEarned s3) of
                  None \<Rightarrow> Inl (RangeError, s3)
                | Some filled \<Rightarrow>
                    (case repeat star_empty (3 - starsEarned s3) of
                       None \<Rightarrow> Inl (RangeError, s3)
                     | Some hollow \<Rightarrow> Inr (set_stars (filled @ hollow) s3))))"

definition updateStatus0 :: "'g engine \<Rightarrow> 'g session0 \<Rightarrow> 'g session0 outcome" where
  "updateStatus0 E s =
     (case game s of
        None \<Rightarrow> Inl (TypeError, s)
      | Some g \<Rightarrow>
          if in_checkmate E g then
            (case puzzle0_at (currentPuzzleIndex s) of
               None \<Rightarrow> Inl (TypeError, s)
             | Some p \<Rightarrow>
                 Inr (set_nextBtn_display ''inline-block'' (alert (solved_message p) s)))
          else
            (case puzzle0_at (currentPuzzleIndex s) of
               None \<Rightarrow> Inl (TypeError, s)
             | Some p \<Rightarrow>
                 (let maxPlies = mateIn p * 2 in
                  if length (history E g) > maxPlies then
                    loadPuzzle0 E (currentPuzzleIndex s) (alert too_many_moves_message s)
                  else Inr s)))"

text \<open>
  The widget's callbacks. \<open>onDragStart\<close> returns \<open>false\<close> to forbid a drag and nothing to
  allow it (\<open>True\<close> in the model); its \<open>piece\<close> is the widget's code of the piece, such as
  \<open>wQ\<close>. \<open>onDrop\<close> returns \<open>snapback\<close> when the engine refuses the move and nothing
  otherwise.
\<close>

definition starts_with :: "char \<Rightarrow> string \<Rightarrow> bool" where
  "starts_with c str = (case str of [] \<Rightarrow> False | x # _ \<Rightarrow> x = c)"

definition onDragStart :: "'g engine \<Rightarrow> string \<Rightarrow> string \<Rightarrow> 'g session0 \<Rightarrow> error + bool" where
  "onDragStart E source piece s =
     (case game s of
        None \<Rightarrow> Inl TypeError
      | Some g \<Rightarrow>
          if game_over E g then Inr False
          else if (turn E g = White \<and> starts_with (CHR ''b'') piece) \<or>
                  (turn E g = Black \<and> starts_with (CHR ''w'') piece)
          then Inr False
          else Inr True)"

definition onDrop ::
  "'g engine \<Rightarrow> string \<Rightarrow> string \<Rightarrow> 'g session0 \<Rightarrow>
     (error \<times> 'g session0) + (string option \<times> 'g session0)"
where
  "onDrop E source target s =
     (case game s of
        None \<Rightarrow> Inl (TypeError, s)
      | Some g \<Rightarrow>
          (case move E g source target ''q'' of
             None \<Rightarrow> Inr (Some ''snapback'', s)
           | Some g' \<Rightarrow>
               (case updateStatus0 E (s\<lparr>game := Some g'\<rparr>) of
                  Inl e \<Rightarrow> Inl e
                | Inr s' \<Rightarrow> Inr (None, s'))))"

definition onSnapEnd :: "'g engine \<Rightarrow> 'g session0 \<Rightarrow> 'g session0 outcome" where
  "onSnapEnd E s =
     (case board_widget s of
        None \<Rightarrow> Inl (TypeError, s)
      | Some b \<Rightarrow>
          (case game s of
             None \<Rightarrow> Inl (TypeError, s)
           | Some g \<Rightarrow> Inr (s\<lparr>board_widget := Some (b\<lparr>cfg_position := game_fen E g\<rparr>)\<rparr>)))"

definition puzzleMatePlies0 :: "'g session0 \<Rightarrow> nat option" where
  "puzzleMatePlies0 s = map_option (\<lambda>p. mateIn p * 2) (puzzle0_at (currentPuzzleIndex s))"

definition updateProgress0 :: "'g session0 \<Rightarrow> 'g session0" where
  "updateProgress0 s =
     (let total = length puzzles0 in
      set_progress
        (''Puzzle '' @ show_nat (currentPuzzleIndex s + 1) @ '' de '' @ show_nat total) s)"

definition nextPuzzle0 :: "'g engine \<Rightarrow> 'g session0 \<Rightarrow> 'g session0 outcome" where
  "nextPuzzle0 E s =
     (let s1 = s\<lparr>currentPuzzleIndex := currentPuzzleIndex s + 1\<rparr>;
          s2 = (if currentPuzzleIndex s1 \<ge> length puzzles0
                then (alert catalog_complete_message s1)\<lparr>currentPuzzleIndex := 0\<rparr>
                else s1);
          s3 = updateProgress0 s2
      in loadPuzzle0 E (currentPuzzleIndex s3) s3)"

definition init0 :: "'g engine \<Rightarrow> 'g session0 \<Rightarrow> 'g session0 outcome" where
  "init0 E s =
     (case loadPuzzle0 E (currentPuzzleIndex s) s of
        Inl e \<Rightarrow> Inl e
      | Inr s1 \<Rightarrow> Inr (updateProgress0 s1))"

definition blank_page0 :: "'g session0" where
  "blank_page0 =
     \<lparr>currentPuzzleIndex = 0, hintCount = 0, starsEarned = 3, game = None,
      info_text = [], stars_text = [], progress_text = [], nextBtn_display = [],
      effects = [], board_widget = None\<rparr>"

subsection \<open>A small engine for concrete runs\<close>

text \<open>
  The controller is verified against any engine. To run it on concrete inputs an engine
  value is needed; \<open>stub_engine\<close> is a deliberately small one. It reads the piece
  placement and the side to move from the FEN string; a piece of the side to move may go
  to any square not held by a piece of its own colour; taking the king ends the game, which
  the stub reports as checkmate and as the end of the game; every accepted move is appended
  to the history; asked for a FEN string it returns the one it was built from. It is not
  chess, and no theorem about the controller depends on it.
\<close>

record stub_game =
  sg_fen :: string
  sg_pieces :: "(string \<times> piece) list"
  sg_turn :: color
  sg_history :: "string list"
  sg_checkmate :: bool

definition piece_of_letter :: "char \<Rightarrow> piece option" where
  "piece_of_letter c =
     map_of
       [(CHR ''p'', \<lparr>kind = Pawn, color = Black\<rparr>), (CHR ''n'', \<lparr>kind = Knight, color = Black\<rparr>),
        (CHR ''b'', \<lparr>kind = Bishop, color = Black\<rparr>), (CHR ''r'', \<lparr>kind = Rook, color = Black\<rparr>),
        (CHR ''q'', \<lparr>kind = Queen, color = Black\<rparr>), (CHR ''k'', \<lparr>kind = King, color = Black\<rparr>),
        (CHR ''P'', \<lparr>kind = Pawn, color = White\<rparr>), (CHR ''N'', \<lparr>kind = Knight, color = White\<rparr>),
        (CHR ''B'', \<lparr>kind = Bishop, color = White\<rparr>), (CHR ''R'', \<lparr>kind = Rook, color = White\<rparr>),
        (CHR ''Q'', \<lparr>kind = Queen, color = White\<rparr>), (CHR ''K'', \<lparr>kind = King, color = White\<rparr>)]
       c"

definition fen_skip :: "char \<Rightarrow> nat" where
  "fen_skip c =
     (case map_of
             [(CHR ''1'', 1), (CHR ''2'', 2), (CHR ''3'', 3), (CHR ''4'', 4),
              (CHR ''5'', 5), (CHR ''6'', 6), (CHR ''7'', 7), (CHR ''8'', 8)] c of
        Some n \<Rightarrow> n
      | None \<Rightarrow> 0)"

fun fen_placement :: "string \<Rightarrow> nat \<Rightarrow> nat \<Rightarrow> (string \<times> piece) list" where
  "fen_placement [] row col = []"
| "fen_placement (c # cs) row col =
     (if c = CHR '' '' then []
      else if c = CHR ''/'' then fen_placement cs (row + 1) 0
      else
        (case piece_of_letter c of
           Some p \<Rightarrow> (coord_of row col, p) # fen_placement cs row (col + 1)
         | None \<Rightarrow> fen_placement cs row (col + fen_skip c)))"

definition fen_turn :: "string \<Rightarrow> color" where
  "fen_turn str =
     (case dropWhile (\<lambda>c. c \<noteq> CHR '' '') str of
        _ # c # _ \<Rightarrow> if c = CHR ''b'' then Black else White
      | _ \<Rightarrow> White)"

definition all_squares :: "string list" where
  "all_squares = concat (map (\<lambda>row. map (\<lambda>col. coord_of row col) [0..<8]) [0..<8])"

definition other :: "color \<Rightarrow> color" where
  "other c = (case c of White \<Rightarrow> Black | Black \<Rightarrow> White)"

definition stub_targets :: "stub_game \<Rightarrow> string \<Rightarrow> string list" where
  "stub_targets g sq =
     (case map_of (sg_pieces g) sq of
        None \<Rightarrow> []
      | Some p \<Rightarrow>
          if color p \<noteq> sg_turn g \<or> sg_checkmate g then []
          else filter (\<lambda>t. t \<noteq> sq \<and>
                            (case map_of (sg_pieces g) t of
                               None \<Rightarrow> True
                             | Some q \<Rightarrow> color q \<noteq> color p))
                 all_squares)"

definition stub_move :: "stub_game \<Rightarrow> string \<Rightarrow> string \<Rightarrow> string \<Rightarrow> stub_game option" where
  "stub_move g f t pr =
     (if t \<in> set (stub_targets g f) then
        (case map_of (sg_pieces g) f of
           None \<Rightarrow> None
         | Some p \<Rightarrow>
             Some (g\<lparr>sg_pieces := (t, p) # filter (\<lambda>(sq, q). sq \<noteq> f \<and> sq \<noteq> t) (sg_pieces g),
                     sg_turn := other (sg_turn g),
                     sg_history := sg_history g @ [f @ t],
                     sg_checkmate :=
                       (case map_of (sg_pieces g) t of
                          None \<Rightarrow> False
                        | Some q \<Rightarrow> kind q = King)\<rparr>))
      else None)"

definition stub_engine :: "stub_game engine" where
  "stub_engine =
     \<lparr>Chess = (\<lambda>str. \<lparr>sg_fen = str, sg_pieces = fen_placement str 0 0, sg_turn = fen_turn str,
                       sg_history = [], sg_checkmate = False\<rparr>),
      board = (\<lambda>g row col. map_of (sg_pieces g) (coord_of row col)),
      get = (\<lambda>g sq. map_of (sg_pieces g) sq),
      turn = sg_turn,
      moves = (\<lambda>g sq. map (\<lambda>t. \<lparr>from_sq = sq, to_sq = t, san = sq @ t\<rparr>) (stub_targets g sq)),
      move = stub_move,
      in_checkmate = sg_checkmate,
      history = sg_history,
      game_over = sg_checkmate,
      game_fen = sg_fen\<rparr>"

text \<open>The same engine, except that it refuses every move it is asked to make.\<close>

definition refusing_engine :: "stub_game engine" where
  "refusing_engine = stub_engine\<lparr>move := (\<lambda>g f t pr. None)\<rparr>"

subsection \<open>Concrete positions and sessions\<close>

text \<open>
  The catalog's second puzzle, ``Mate simple'', as the stub engine holds it, and the same
  puzzle three half-moves later (queen f7 to f6, king h8 to g8, queen f6 to f5), after the
  queen has taken the king, after the queen has gone to f8, and after the first two of the
  three half-moves.
\<close>

definition mate_simple :: stub_game where
  "mate_simple =
     \<lparr>sg_fen = ''7k/5Q2/8/8/8/8/8/7K w - - 0 1'',
      sg_pieces =
        [(''h8'', \<lparr>kind = King, color = Black\<rparr>), (''f7'', \<lparr>kind = Queen, color = White\<rparr>),
         (''h1'', \<lparr>kind = King, color = White\<rparr>)],
      sg_turn = White, sg_history = [], sg_checkmate = False\<rparr>"

definition three_plies :: stub_game where
  "three_plies =
     \<lparr>sg_fen = ''7k/5Q2/8/8/8/8/8/7K w - - 0 1'',
      sg_pieces =
        [(''f5'', \<lparr>kind = Queen, color = White\<rparr>), (''g8'', \<lparr>kind = King, color = Black\<rparr>),
         (''h1'', \<lparr>kind = King, color = White\<rparr>)],
      sg_turn = Black, sg_history = [''f7f6'', ''h8g8'', ''f6f5''], sg_checkmate = False\<rparr>"

definition king_taken :: stub_game where
  "king_taken =
     \<lparr>sg_fen = ''7k/5Q2/8/8/8/8/8/7K w - - 0 1'',
      sg_pieces =
        [(''h8'', \<lparr>kind = Queen, color = White\<rparr>), (''h1'', \<lparr>kind = King, color = White\<rparr>)],
      sg_turn = Black, sg_history = [''f7h8''], sg_checkmate = True\<rparr>"

definition queen_on_f8 :: stub_game where
  "queen_on_f8 =
     \<lparr>sg_fen = ''7k/5Q2/8/8/8/8/8/7K w - - 0 1'',
      sg_pieces =
        [(''f8'', \<lparr>kind = Queen, color = White\<rparr>), (''h8'', \<lparr>kind = King, color = Black\<rparr>),
         (''h1'', \<lparr>kind = King, color = White\<rparr>)],
      sg_turn = Black, sg_history = [''f7f8''], sg_checkmate = False\<rparr>"

definition two_plies :: stub_game where
  "two_plies =
     \<lparr>sg_fen = ''7k/5Q2/8/8/8/8/8/7K w - - 0 1'',
      sg_pieces =
        [(''g8'', \<lparr>kind = King, color = Black\<rparr>), (''f6'', \<lparr>kind = Queen, color = White\<rparr>),
         (''h1'', \<lparr>kind = King, color = White\<rparr>)],
      sg_turn = White, sg_history = [''f7f6'', ''h8g8''], sg_checkmate = False\<rparr>"

text \<open>Sessions on the second puzzle holding these positions, nothing selected.\<close>

definition session_with :: "stub_game \<Rightarrow> stub_game session" where
  "session_with g = blank_page\<lparr>currentPuzzleIndex := 1, game := Some g\<rparr>"

text \<open>
  The session after the page has loaded, the user has advanced to the second puzzle and
  clicked the queen on f7; once with the stub engine, once with the refusing one.
\<close>

definition queen_selected :: "stub_game engine \<Rightarrow> stub_game session" where
  "queen_selected E =
     state_after (handleSquareClick E ''f7''
       (state_after (nextPuzzle E (state_after (init E blank_page)))))"

text \<open>
  The same session four clicks later: queen to f6, black king selected on h8 and moved to
  g8, queen selected on f6. Two half-moves have been played on ``Mate simple'', whose
  ceiling is two, and the third is about to be.
\<close>

definition third_ply_pending :: "stub_game session" where
  "third_ply_pending =
     state_after (handleSquareClick stub_engine ''f6''
       (state_after (handleSquareClick stub_engine ''g8''
         (state_after (handleSquareClick stub_engine ''h8''
           (state_after (handleSquareClick stub_engine ''f6''
             (queen_selected stub_engine))))))))"

subsection \<open>Notions used to state the properties\<close>

text \<open>The star display for a rating: the filled glyphs, then the empty ones, three in all.\<close>

definition stars_line :: "int \<Rightarrow> string" where
  "stars_line n =
     concat (replicate (nat n) star_filled) @ concat (replicate (nat (3 - n)) star_empty)"

text \<open>The messages shown by \<open>alert\<close> between two states of one run.\<close>

definition alerts_since ::
  "('g, 'z) common_scheme \<Rightarrow> ('g, 'z) common_scheme \<Rightarrow> string list"
where
  "alerts_since s s' = [msg. Alert msg \<leftarrow> drop (length (effects s)) (effects s')]"

text \<open>
  The handler is in its first branch (a legal target of the selected square was clicked)
  and the engine refuses the move.
\<close>

definition move_rejected :: "'g engine \<Rightarrow> string \<Rightarrow> 'g session \<Rightarrow> bool" where
  "move_rejected E clickedSquare s =
     (case move_origin s clickedSquare of
        None \<Rightarrow> False
      | Some sq \<Rightarrow>
          (case game s of
             None \<Rightarrow> False
           | Some g \<Rightarrow> move E g sq clickedSquare ''q'' = None))"

section \<open>Properties\<close>

subsection \<open>Calls written out\<close>

lemmas page_defs = alert_def set_info_def set_stars_def set_progress_def set_nextBtn_display_def

lemma renderBoard_defined:
  "game s = Some g \<Longrightarrow>
   renderBoard E s =
     Inr (s\<lparr>chessBoard := render_squares (board E g) (selectedSquare s) (legalMoves s),
            effects := effects s @ [RenderBoard]\<rparr>)"
  by (simp add: renderBoard_def)

lemma renderBoard_undefined:
  "game s = None \<Longrightarrow> renderBoard E s = Inl (TypeError, s\<lparr>chessBoard := []\<rparr>)"
  by (simp add: renderBoard_def)

lemma puzzle_at_in_range: "i < length puzzles \<Longrightarrow> puzzle_at i = Some (puzzles ! i)"
  by (simp add: puzzle_at_def)

lemma puzzle_at_SomeD: "puzzle_at i = Some p \<Longrightarrow> i < length puzzles \<and> p = puzzles ! i"
  by (auto simp: puzzle_at_def split: if_splits)

lemma length_puzzles: "length puzzles = 3"
  by (simp add: puzzles_def)

subsection \<open>Facts about the concrete positions and sessions\<close>

lemma stub_extends_history: "move_extends_history stub_engine"
  by (auto simp: move_extends_history_def stub_engine_def stub_move_def
      split: if_splits option.splits)

lemma queen_selected_stub:
  "selectedSquare (queen_selected stub_engine) = Some ''f7''"
  "''f8'' \<in> set (legalMoves (queen_selected stub_engine))"
  "game (queen_selected stub_engine) = Some mate_simple"
  "currentPuzzleIndex (queen_selected stub_engine) = 1"
  by code_simp+

lemma queen_selected_refusing:
  "selectedSquare (queen_selected refusing_engine) = Some ''f7''"
  "''f8'' \<in> set (legalMoves (queen_selected refusing_engine))"
  "game (queen_selected refusing_engine) = Some mate_simple"
  "currentPuzzleIndex (queen_selected refusing_engine) = 1"
  by code_simp+

lemma queen_to_f8: "move stub_engine mate_simple ''f7'' ''f8'' ''q'' = Some queen_on_f8"
  by code_simp

lemma puzzle_at_1: "puzzle_at 1 = Some (puzzles ! 1)"
  by (rule puzzle_at_in_range) (simp add: length_puzzles)

lemma three_plies_facts:
  "game (session_with three_plies) = Some three_plies"
  "\<not> in_checkmate stub_engine three_plies"
  "puzzle_at (currentPuzzleIndex (session_with three_plies)) = Some (puzzles ! 1)"
  "mateIn (puzzles ! 1) * 2 < length (history stub_engine three_plies)"
  by code_simp+

lemma king_taken_facts:
  "game (session_with king_taken) = Some king_taken"
  "in_checkmate stub_engine king_taken"
  "puzzle_at (currentPuzzleIndex (session_with king_taken)) = Some (puzzles ! 1)"
  by code_simp+

lemma queen_selected_reachable: "reachable E (queen_selected E)"
  unfolding queen_selected_def
  by (intro reachable.intros) (simp add: at_start_def blank_page_def)

subsection \<open>Loading a puzzle\<close>

lemma loadPuzzle_defined:
  "puzzle_at i = Some p \<Longrightarrow>
   loadPuzzle E i s =
     Inr (s\<lparr>hintCount := 0, starsEarned := 3, game := Some (Chess E (fen p)),
            selectedSquare := None, legalMoves := [],
            info_text := info_line i p,
            stars_text := star_filled @ star_filled @ star_filled,
            nextBtn_display := ''none'',
            chessBoard := render_squares (board E (Chess E (fen p))) None [],
            effects := effects s @
              [RenderBoard, SetTextContent ''info'' (info_line i p),
               SetTextContent ''stars'' (star_filled @ star_filled @ star_filled),
               SetDisplay ''nextBtn'' ''none'']\<rparr>)"
  by (simp add: loadPuzzle_def renderBoard_def page_defs)

lemma loadPuzzle_undefined:
  "puzzle_at i = None \<Longrightarrow>
   loadPuzzle E i s = Inl (TypeError, s\<lparr>hintCount := 0, starsEarned := 3\<rparr>)"
  by (simp add: loadPuzzle_def)

text \<open>
  Claim C5. For every catalog index \<open>i\<close>, \<open>loadPuzzle(i)\<close> returns, and afterwards the hint
  count is 0, the star rating is 3, no square is selected and there is no legal target, the
  engine is a fresh one built from the FEN of puzzle \<open>i\<close>, the star display shows three
  filled glyphs and the advance button is hidden.
\<close>

theorem loadPuzzle_resets:
  assumes "i < length puzzles"
  shows "\<exists>s'. loadPuzzle E i s = Inr s' \<and>
           hintCount s' = 0 \<and> starsEarned s' = 3 \<and>
           selectedSquare s' = None \<and> legalMoves s' = [] \<and>
           game s' = Some (Chess E (fen (puzzles ! i))) \<and>
           stars_text s' = concat (replicate 3 star_filled) \<and>
           nextBtn_display s' = ''none'' \<and>
           currentPuzzleIndex s' = currentPuzzleIndex s"
  using assms by (simp add: loadPuzzle_defined puzzle_at_in_range numeral_3_eq_3)

theorem loadPuzzle_resets_witness:
  "(1::nat) < length puzzles \<and>
   (\<exists>s'. loadPuzzle stub_engine 1 (session_with three_plies) = Inr s' \<and>
      hintCount s' = 0 \<and> starsEarned s' = 3 \<and>
      selectedSquare s' = None \<and> legalMoves s' = [] \<and>
      game s' = Some mate_simple \<and>
      stars_text s' = concat (replicate 3 star_filled) \<and>
      nextBtn_display s' = ''none'')"
proof -
  have inr: "(1::nat) < length puzzles" by (simp add: length_puzzles)
  have fresh: "Chess stub_engine (fen (puzzles ! 1)) = mate_simple" by code_simp
  from loadPuzzle_resets [OF inr, of stub_engine "session_with three_plies"] inr fresh
  show ?thesis by auto
qed

text \<open>
  Claim C9. \<open>loadPuzzle\<close> is idempotent: from any state and for any index, a second call
  with the same index leaves every variable and every page element as the first call left
  them (only the record of emitted effects grows). For a catalog index both calls return
  and the second emits the same effects as the first.
\<close>

theorem loadPuzzle_idempotent:
  "forget_effects (state_after (loadPuzzle E i (state_after (loadPuzzle E i s)))) =
     forget_effects (state_after (loadPuzzle E i s)) \<and>
   (i < length puzzles \<longrightarrow>
      (\<exists>s1 s2. loadPuzzle E i s = Inr s1 \<and> loadPuzzle E i s1 = Inr s2 \<and>
         forget_effects s2 = forget_effects s1 \<and>
         drop (length (effects s1)) (effects s2) = drop (length (effects s)) (effects s1)))"
proof (cases "puzzle_at i")
  case None
  then have "\<not> i < length puzzles" by (simp add: puzzle_at_def split: if_splits)
  with None show ?thesis
    by (simp add: loadPuzzle_undefined state_after_def forget_effects_def)
next
  case (Some p)
  then show ?thesis
    by (simp add: loadPuzzle_defined state_after_def forget_effects_def)
qed


theorem loadPuzzle_idempotent_witness:
  "(1::nat) < length puzzles \<and>
   forget_effects
     (state_after (loadPuzzle stub_engine 1
        (state_after (loadPuzzle stub_engine 1 (session_with three_plies))))) =
   forget_effects (state_after (loadPuzzle stub_engine 1 (session_with three_plies))) \<and>
   (\<exists>s1 s2. loadPuzzle stub_engine 1 (session_with three_plies) = Inr s1 \<and>
      loadPuzzle stub_engine 1 s1 = Inr s2 \<and> forget_effects s2 = forget_effects s1)"
proof -
  have inr: "(1::nat) < length puzzles" by (simp add: length_puzzles)
  from loadPuzzle_idempotent [of stub_engine 1 "session_with three_plies"] inr
  show ?thesis by blast
qed

lemma repeat_nonneg: "0 \<le> n \<Longrightarrow> repeat str n = Some (concat (replicate (nat n) str))"
  by (simp add: repeat_def)

lemma showHint_exhausted:
  "puzzle_at (currentPuzzleIndex s) = Some p \<Longrightarrow> length (solution p) \<le> hintCount s \<Longrightarrow>
   showHint s = Inr s"
  by (simp add: showHint_def)

lemma showHint_undefined:
  "puzzle_at (currentPuzzleIndex s) = None \<Longrightarrow> showHint s = Inl (TypeError, s)"
  by (simp add: showHint_def)

lemma showHint_granted:
  assumes "puzzle_at (currentPuzzleIndex s) = Some p" and "hintCount s < length (solution p)"
  shows "showHint s =
     Inr (s\<lparr>hintCount := hintCount s + 1,
            starsEarned := max 1 (2 - int (hintCount s)),
            stars_text := stars_line (max 1 (2 - int (hintCount s))),
            effects := effects s @
              [Alert (hint_message (solution p ! hintCount s)),
               SetTextContent ''stars'' (stars_line (max 1 (2 - int (hintCount s))))]\<rparr>)"
proof -
  let ?r = "max 1 (2 - int (hintCount s))"
  have r: "max 1 (3 - int (hintCount s + 1)) = ?r" by simp
  have "0 \<le> ?r" and "0 \<le> 3 - ?r" by simp_all
  then have "repeat star_filled ?r = Some (concat (replicate (nat ?r) star_filled))"
    and "repeat star_empty (3 - ?r) = Some (concat (replicate (nat (3 - ?r)) star_empty))"
    by (simp_all only: repeat_nonneg)
  with assms r show ?thesis
    by (simp add: showHint_def Let_def page_defs stars_line_def del: of_nat_Suc of_nat_add)
qed

lemma hints_from_fresh:
  assumes "puzzle_at (currentPuzzleIndex s0) = Some p"
    and "hintCount s0 = 0" and "starsEarned s0 = 3"
  shows "\<exists>sh. hints h s0 = Inr sh \<and>
           currentPuzzleIndex sh = currentPuzzleIndex s0 \<and>
           hintCount sh = min h (length (solution p)) \<and>
           starsEarned sh = max 1 (3 - int (min h (length (solution p))))"
proof (induction h)
  case 0
  with assms show ?case by simp
next
  case (Suc h)
  then obtain sh where sh: "hints h s0 = Inr sh"
    "currentPuzzleIndex sh = currentPuzzleIndex s0"
    "hintCount sh = min h (length (solution p))"
    "starsEarned sh = max 1 (3 - int (min h (length (solution p))))"
    by blast
  show ?case
  proof (cases "h < length (solution p)")
    case True
    with sh assms(1) have "showHint sh = Inr (sh\<lparr>hintCount := hintCount sh + 1,
            starsEarned := max 1 (2 - int (hintCount sh)),
            stars_text := stars_line (max 1 (2 - int (hintCount sh))),
            effects := effects sh @
              [Alert (hint_message (solution p ! hintCount sh)),
               SetTextContent ''stars'' (stars_line (max 1 (2 - int (hintCount sh))))]\<rparr>)"
      by (intro showHint_granted) simp_all
    with sh True show ?thesis by (simp add: min_def)
  next
    case False
    with sh assms(1) have "showHint sh = Inr sh"
      by (intro showHint_exhausted [of _ p]) simp_all
    with sh False show ?thesis by (simp add: min_def)
  qed
qed

text \<open>
  Claim C4. After loading the current puzzle and calling \<open>showHint\<close> \<open>h\<close> times, the hint
  count is the smaller of \<open>h\<close> and the length of the solution, and the star rating is
  \<open>max 1 (3 - hintCount)\<close>. At a hint count equal to the length of the solution a further
  call changes nothing; below it the call grants a hint: it shows exactly one alert, whose
  text is the advice prefix followed by the solution move at index \<open>hintCount\<close>, and raises
  the count by one. One more call never raises the rating, and the rating stays at least 1.
\<close>

theorem showHint_counts:
  assumes "currentPuzzleIndex s < length puzzles"
  shows "\<exists>s0 sh. loadPuzzle E (currentPuzzleIndex s) s = Inr s0 \<and> hints h s0 = Inr sh \<and>
    hintCount sh = min h (length (solution (puzzles ! currentPuzzleIndex s))) \<and>
    starsEarned sh = max 1 (3 - int (min h (length (solution (puzzles ! currentPuzzleIndex s))))) \<and>
    (hintCount sh = length (solution (puzzles ! currentPuzzleIndex s)) \<longrightarrow> showHint sh = Inr sh) \<and>
    (hintCount sh < length (solution (puzzles ! currentPuzzleIndex s)) \<longrightarrow>
       (\<exists>s'. showHint sh = Inr s' \<and> hintCount s' = hintCount sh + 1 \<and>
          [m. Alert m \<leftarrow> drop (length (effects sh)) (effects s')] =
            [''Asesor'' @ [CHR 0xC3, CHR 0xAD] @ ''a: intenta jugar ''
             @ solution (puzzles ! currentPuzzleIndex s) ! hintCount sh])) \<and>
    starsEarned (state_after (showHint sh)) \<le> starsEarned sh \<and>
    1 \<le> starsEarned (state_after (showHint sh))"
proof -
  let ?p = "puzzles ! currentPuzzleIndex s"
  have p: "puzzle_at (currentPuzzleIndex s) = Some ?p"
    using assms by (rule puzzle_at_in_range)
  obtain s0 where s0: "loadPuzzle E (currentPuzzleIndex s) s = Inr s0"
    "currentPuzzleIndex s0 = currentPuzzleIndex s" "hintCount s0 = 0" "starsEarned s0 = 3"
    by (simp add: loadPuzzle_defined [OF p])
  from hints_from_fresh [of s0 ?p h] p s0
  obtain sh where sh: "hints h s0 = Inr sh" "currentPuzzleIndex sh = currentPuzzleIndex s"
    "hintCount sh = min h (length (solution ?p))"
    "starsEarned sh = max 1 (3 - int (min h (length (solution ?p))))"
    by auto
  have psh: "puzzle_at (currentPuzzleIndex sh) = Some ?p" using p sh(2) by simp
  have noop: "hintCount sh = length (solution ?p) \<longrightarrow> showHint sh = Inr sh"
    using showHint_exhausted [OF psh] by simp
  have grant: "hintCount sh < length (solution ?p) \<longrightarrow>
       (\<exists>s'. showHint sh = Inr s' \<and> hintCount s' = hintCount sh + 1 \<and>
          [m. Alert m \<leftarrow> drop (length (effects sh)) (effects s')] =
            [''Asesor'' @ [CHR 0xC3, CHR 0xAD] @ ''a: intenta jugar ''
             @ solution ?p ! hintCount sh])"
    using showHint_granted [OF psh] by (simp add: hint_message_def iacute_def)
  have mono: "starsEarned (state_after (showHint sh)) \<le> starsEarned sh \<and>
    1 \<le> starsEarned (state_after (showHint sh))"
  proof (cases "hintCount sh < length (solution ?p)")
    case True
    then show ?thesis using showHint_granted [OF psh True] sh(3,4)
      by (simp add: state_after_def)
  next
    case False
    then show ?thesis using showHint_exhausted [OF psh] sh(4)
      by (simp add: state_after_def)
  qed
  from s0(1) sh(1,3,4) noop grant mono show ?thesis by blast
qed


theorem showHint_counts_witness:
  "currentPuzzleIndex (session_with mate_simple) < length puzzles \<and>
   (\<exists>s0 sh. loadPuzzle stub_engine 1 (session_with mate_simple) = Inr s0 \<and>
      hints 5 s0 = Inr sh \<and> hintCount sh = 1 \<and> starsEarned sh = 2 \<and>
      showHint sh = Inr sh) \<and>
   (\<exists>s0 s'. loadPuzzle stub_engine 1 (session_with mate_simple) = Inr s0 \<and>
      showHint s0 = Inr s' \<and> hintCount s' = 1 \<and>
      alerts_since s0 s' = [''Asesor'' @ [CHR 0xC3, CHR 0xAD] @ ''a: intenta jugar Qf8#''])"
proof -
  have idx: "currentPuzzleIndex (session_with mate_simple) = 1" by code_simp
  have len: "length (solution (puzzles ! 1)) = 1" by code_simp
  have sol: "solution (puzzles ! 1) ! 0 = ''Qf8#''" by code_simp
  have inr: "currentPuzzleIndex (session_with mate_simple) < length puzzles"
    by (simp add: idx length_puzzles)
  have exhausted: "\<exists>s0 sh. loadPuzzle stub_engine 1 (session_with mate_simple) = Inr s0 \<and>
      hints 5 s0 = Inr sh \<and> hintCount sh = 1 \<and> starsEarned sh = 2 \<and>
      showHint sh = Inr sh"
    using showHint_counts [OF inr, of stub_engine 5] idx len by auto
  have granted: "\<exists>s0 s'. loadPuzzle stub_engine 1 (session_with mate_simple) = Inr s0 \<and>
      showHint s0 = Inr s' \<and> hintCount s' = 1 \<and>
      alerts_since s0 s' = [''Asesor'' @ [CHR 0xC3, CHR 0xAD] @ ''a: intenta jugar Qf8#'']"
    using showHint_counts [OF inr, of stub_engine 0] idx len sol
    by (auto simp: alerts_since_def)
  from inr exhausted granted show ?thesis by blast
qed

lemma updateStatus_checkmate_eq:
  assumes "game s = Some g" and "in_checkmate E g"
    and "puzzle_at (currentPuzzleIndex s) = Some p"
  shows "updateStatus E s =
     Inr (s\<lparr>nextBtn_display := ''inline-block'',
            chessBoard := render_squares (board E g) (selectedSquare s) (legalMoves s),
            effects := effects s @
              [RenderBoard, Alert (solved_message p), SetDisplay ''nextBtn'' ''inline-block'']\<rparr>)"
  using assms by (simp add: updateStatus_def renderBoard_defined page_defs)

lemma updateStatus_within_ceiling_eq:
  assumes "game s = Some g" and "\<not> in_checkmate E g"
    and "puzzle_at (currentPuzzleIndex s) = Some p"
    and "length (history E g) \<le> mateIn p * 2"
  shows "updateStatus E s =
     Inr (s\<lparr>chessBoard := render_squares (board E g) (selectedSquare s) (legalMoves s),
            effects := effects s @ [RenderBoard]\<rparr>)"
  using assms by (simp add: updateStatus_def renderBoard_defined page_defs)

lemma updateStatus_over_ceiling_eq:
  assumes "game s = Some g" and "\<not> in_checkmate E g"
    and "puzzle_at (currentPuzzleIndex s) = Some p"
    and "mateIn p * 2 < length (history E g)"
  shows "updateStatus E s =
     Inr (s\<lparr>hintCount := 0, starsEarned := 3, game := Some (Chess E (fen p)),
            selectedSquare := None, legalMoves := [],
            info_text := info_line (currentPuzzleIndex s) p,
            stars_text := star_filled @ star_filled @ star_filled,
            nextBtn_display := ''none'',
            chessBoard := render_squares (board E (Chess E (fen p))) None [],
            effects := effects s @
              [RenderBoard, Alert too_many_moves_message,
               RenderBoard, SetTextContent ''info'' (info_line (currentPuzzleIndex s) p),
               SetTextContent ''stars'' (star_filled @ star_filled @ star_filled),
               SetDisplay ''nextBtn'' ''none'']\<rparr>)"
  using assms
  by (simp add: updateStatus_def renderBoard_defined page_defs loadPuzzle_defined [of _ p])

text \<open>
  Claim C3. When the engine reports checkmate, the status evaluation that follows an
  accepted move shows one alert, the success message ending in the puzzle's quote, and
  makes the advance button visible. It neither advances nor reloads: the puzzle index, the
  engine, the hint count and the star rating are unchanged, and no move-ceiling check
  takes place (nothing else is emitted).
\<close>

theorem updateStatus_checkmate:
  assumes "game s = Some g" and "in_checkmate E g"
    and "puzzle_at (currentPuzzleIndex s) = Some p"
  shows "\<exists>s'. updateStatus E s = Inr s' \<and>
           alerts_since s s' = [solved_message p] \<and>
           solved_message p =
             iexcl @ ''Excelente! Has resuelto el puzzle '' @ [CHR 0x22] @ name p @ [CHR 0x22]
             @ ''.'' @ [CHR 0x0A] @ quote p \<and>
           nextBtn_display s' = ''inline-block'' \<and>
           effects s' = effects s @
             [RenderBoard, Alert (solved_message p), SetDisplay ''nextBtn'' ''inline-block''] \<and>
           currentPuzzleIndex s' = currentPuzzleIndex s \<and>
           game s' = game s \<and> hintCount s' = hintCount s \<and> starsEarned s' = starsEarned s \<and>
           selectedSquare s' = selectedSquare s \<and> legalMoves s' = legalMoves s \<and>
           info_text s' = info_text s \<and> stars_text s' = stars_text s \<and>
           progress_text s' = progress_text s"
  by (simp add: updateStatus_checkmate_eq [OF assms] alerts_since_def solved_message_def)

theorem updateStatus_checkmate_witness:
  "game (session_with king_taken) = Some king_taken \<and>
   in_checkmate stub_engine king_taken \<and>
   puzzle_at (currentPuzzleIndex (session_with king_taken)) = Some (puzzles ! 1) \<and>
   (\<exists>s'. updateStatus stub_engine (session_with king_taken) = Inr s' \<and>
      alerts_since (session_with king_taken) s' = [solved_message (puzzles ! 1)] \<and>
      nextBtn_display s' = ''inline-block'' \<and>
      currentPuzzleIndex s' = 1 \<and> game s' = Some king_taken)"
proof -
  have idx: "currentPuzzleIndex (session_with king_taken) = 1" by code_simp
  from updateStatus_checkmate [OF king_taken_facts] king_taken_facts idx
  show ?thesis by auto
qed

text \<open>
  Claim C2, amended. When the position is not checkmate and the number of half-moves in
  the engine's history exceeds \<open>mateIn * 2\<close>, the status evaluation notifies the user with
  one alert and then calls \<open>loadPuzzle\<close> on the same index: the hint count is 0, the star
  rating 3 and the engine a fresh one built from the puzzle's FEN. The reload is announced,
  not silent.
\<close>

theorem updateStatus_ceiling_reload:
  assumes "game s = Some g" and "\<not> in_checkmate E g"
    and "puzzle_at (currentPuzzleIndex s) = Some p"
    and "mateIn p * 2 < length (history E g)"
  shows "\<exists>s1 s'. renderBoard E s = Inr s1 \<and>
           updateStatus E s =
             loadPuzzle E (currentPuzzleIndex s) (alert too_many_moves_message s1) \<and>
           updateStatus E s = Inr s' \<and>
           alerts_since s s' = [too_many_moves_message] \<and>
           hintCount s' = 0 \<and> starsEarned s' = 3 \<and>
           game s' = Some (Chess E (fen p)) \<and>
           selectedSquare s' = None \<and> legalMoves s' = [] \<and>
           currentPuzzleIndex s' = currentPuzzleIndex s \<and>
           stars_text s' = concat (replicate 3 star_filled) \<and>
           nextBtn_display s' = ''none''"
  using assms
  by (simp add: updateStatus_over_ceiling_eq [OF assms] renderBoard_defined
      loadPuzzle_defined [of _ p] alerts_since_def page_defs numeral_3_eq_3)


theorem updateStatus_ceiling_reload_witness:
  "game (session_with three_plies) = Some three_plies \<and>
   \<not> in_checkmate stub_engine three_plies \<and>
   puzzle_at (currentPuzzleIndex (session_with three_plies)) = Some (puzzles ! 1) \<and>
   mateIn (puzzles ! 1) * 2 < length (history stub_engine three_plies) \<and>
   (\<exists>s'. updateStatus stub_engine (session_with three_plies) = Inr s' \<and>
      alerts_since (session_with three_plies) s' = [too_many_moves_message] \<and>
      hintCount s' = 0 \<and> starsEarned s' = 3 \<and> game s' = Some mate_simple \<and>
      currentPuzzleIndex s' = 1)"
proof -
  have fresh: "Chess stub_engine (fen (puzzles ! 1)) = mate_simple" by code_simp
  have idx: "currentPuzzleIndex (session_with three_plies) = 1" by code_simp
  from updateStatus_ceiling_reload [OF three_plies_facts] three_plies_facts fresh idx
  show ?thesis by auto
qed

text \<open>
  Claim C2 as stated, with a silent reload, fails: in the session holding ``Mate simple''
  after three half-moves without checkmate the ceiling of two is exceeded, and the status
  evaluation shows an alert.
\<close>

theorem reload_not_silent:
  "game (session_with three_plies) = Some three_plies \<and>
   \<not> in_checkmate stub_engine three_plies \<and>
   puzzle_at (currentPuzzleIndex (session_with three_plies)) = Some (puzzles ! 1) \<and>
   mateIn (puzzles ! 1) * 2 < length (history stub_engine three_plies) \<and>
   alerts_since (session_with three_plies)
     (state_after (updateStatus stub_engine (session_with three_plies))) \<noteq> []"
  by code_simp

lemma catalog_complete_distinct: "catalog_complete_message \<noteq> solved_message p"
  by (simp add: catalog_complete_message_def solved_message_def iexcl_def)

lemma updateProgress_eq:
  "updateProgress s =
     s\<lparr>progress_text :=
           ''Puzzle '' @ show_nat (currentPuzzleIndex s + 1) @ '' de '' @ show_nat (length puzzles),
       effects := effects s @
         [SetTextContent ''progress''
           (''Puzzle '' @ show_nat (currentPuzzleIndex s + 1) @ '' de ''
            @ show_nat (length puzzles))]\<rparr>"
  by (simp add: updateProgress_def set_progress_def Let_def)

text \<open>
  Claim C6. \<open>nextPuzzle\<close> increments the puzzle index; when the incremented index is past
  the last catalog entry it shows the catalog-complete alert, whose text differs from every
  puzzle-solved message, and sets the index to 0. In both cases it then writes the progress
  line and only afterwards calls \<open>loadPuzzle\<close> on the resulting index, which returns with
  the index inside the catalog.
\<close>

theorem nextPuzzle_advances:
  "let wrap = (length puzzles \<le> currentPuzzleIndex s + 1);
       i' = (if wrap then 0 else currentPuzzleIndex s + 1);
       line = ''Puzzle '' @ show_nat (i' + 1) @ '' de '' @ show_nat (length puzzles)
   in i' < length puzzles \<and>
      nextPuzzle E s =
        loadPuzzle E i'
          (updateProgress
            ((if wrap then alert catalog_complete_message s else s)\<lparr>currentPuzzleIndex := i'\<rparr>)) \<and>
      (\<exists>s'. nextPuzzle E s = Inr s' \<and>
         currentPuzzleIndex s' = i' \<and> currentPuzzleIndex s' < length puzzles \<and>
         progress_text s' = line \<and>
         effects s' =
           effects s @ (if wrap then [Alert catalog_complete_message] else [])
           @ [SetTextContent ''progress'' line]
           @ [RenderBoard, SetTextContent ''info'' (info_line i' (puzzles ! i')),
              SetTextContent ''stars'' (concat (replicate 3 star_filled)),
              SetDisplay ''nextBtn'' ''none'']) \<and>
      (\<forall>p. catalog_complete_message \<noteq> solved_message p)"
proof (cases "length puzzles \<le> currentPuzzleIndex s + 1")
  case True
  have p0: "puzzle_at 0 = Some (puzzles ! 0)"
    by (rule puzzle_at_in_range) (simp add: length_puzzles)
  from True show ?thesis
    by (simp add: Let_def nextPuzzle_def updateProgress_eq alert_def
        loadPuzzle_defined [OF p0] catalog_complete_distinct length_puzzles numeral_3_eq_3
        del: show_nat.simps)
next
  case False
  then have lt: "currentPuzzleIndex s + 1 < length puzzles" by simp
  have p1: "puzzle_at (Suc (currentPuzzleIndex s)) = Some (puzzles ! Suc (currentPuzzleIndex s))"
    using lt by (intro puzzle_at_in_range) simp
  from False lt show ?thesis
    by (simp add: Let_def nextPuzzle_def updateProgress_eq alert_def
        loadPuzzle_defined [OF p1] catalog_complete_distinct numeral_3_eq_3
        del: show_nat.simps)
qed

theorem nextPuzzle_advances_witness:
  "length puzzles \<le> currentPuzzleIndex ((session_with king_taken)\<lparr>currentPuzzleIndex := 2\<rparr>) + 1 \<and>
   (\<exists>s'. nextPuzzle stub_engine ((session_with king_taken)\<lparr>currentPuzzleIndex := 2\<rparr>) = Inr s' \<and>
      currentPuzzleIndex s' = 0 \<and> currentPuzzleIndex s' < length puzzles \<and>
      progress_text s' = ''Puzzle 1 de 3'' \<and>
      alerts_since ((session_with king_taken)\<lparr>currentPuzzleIndex := 2\<rparr>) s'
        = [catalog_complete_message])"
proof -
  let ?s = "(session_with king_taken)\<lparr>currentPuzzleIndex := 2\<rparr>"
  have wrap: "length puzzles \<le> currentPuzzleIndex ?s + 1" by (simp add: length_puzzles)
  have "nextPuzzle stub_engine ?s =
      loadPuzzle stub_engine 0
        (updateProgress ((alert catalog_complete_message ?s)\<lparr>currentPuzzleIndex := 0\<rparr>)) \<and>
    (\<exists>s'. nextPuzzle stub_engine ?s = Inr s' \<and>
      currentPuzzleIndex s' = 0 \<and> currentPuzzleIndex s' < length puzzles \<and>
      progress_text s' = ''Puzzle 1 de 3'' \<and>
      effects s' = effects ?s @ [Alert catalog_complete_message] @
        [SetTextContent ''progress'' ''Puzzle 1 de 3''] @
        [RenderBoard, SetTextContent ''info'' (info_line 0 (puzzles ! 0)),
         SetTextContent ''stars'' (concat (replicate 3 star_filled)),
         SetDisplay ''nextBtn'' ''none''])"
    using nextPuzzle_advances [of ?s stub_engine] wrap
    by (simp add: Let_def length_puzzles) metis
  then obtain s' where s': "nextPuzzle stub_engine ?s = Inr s'"
      "currentPuzzleIndex s' = 0" "currentPuzzleIndex s' < length puzzles"
      "progress_text s' = ''Puzzle 1 de 3''"
      "effects s' = effects ?s @ [Alert catalog_complete_message] @
        [SetTextContent ''progress'' ''Puzzle 1 de 3''] @
        [RenderBoard, SetTextContent ''info'' (info_line 0 (puzzles ! 0)),
         SetTextContent ''stars'' (concat (replicate 3 star_filled)),
         SetDisplay ''nextBtn'' ''none'']"
    by blast
  have "alerts_since ?s s' = [catalog_complete_message]"
    by (simp add: alerts_since_def s'(5))
  with s' wrap show ?thesis by blast
qed

lemma showHint_replaces:
  "\<exists>hc st line eff.
     state_after (showHint s) =
       s\<lparr>hintCount := hc, starsEarned := st, stars_text := line, effects := eff\<rparr>"
proof (cases "puzzle_at (currentPuzzleIndex s)")
  case None
  have "s = s\<lparr>hintCount := hintCount s, starsEarned := starsEarned s,
          stars_text := stars_text s, effects := effects s\<rparr>"
    by simp
  with None show ?thesis by (metis showHint_undefined state_after_def old.sum.simps(5) case_prod_conv)
next
  case (Some p)
  show ?thesis
  proof (cases "hintCount s < length (solution p)")
    case True
    show ?thesis by (simp add: showHint_granted [OF Some True] state_after_def) blast
  next
    case False
    then have "showHint s = Inr s" using showHint_exhausted [OF Some] by simp
    moreover have "s = s\<lparr>hintCount := hintCount s, starsEarned := starsEarned s,
          stars_text := stars_text s, effects := effects s\<rparr>"
      by simp
    ultimately show ?thesis by (metis state_after_def old.sum.simps(6))
  qed
qed

lemma showHint_touches:
  "game (state_after (showHint s)) = game s \<and>
   selectedSquare (state_after (showHint s)) = selectedSquare s \<and>
   legalMoves (state_after (showHint s)) = legalMoves s \<and>
   currentPuzzleIndex (state_after (showHint s)) = currentPuzzleIndex s \<and>
   state_after (showHint s) =
     s\<lparr>hintCount := hintCount (state_after (showHint s)),
       starsEarned := starsEarned (state_after (showHint s)),
       stars_text := stars_text (state_after (showHint s)),
       effects := effects (state_after (showHint s))\<rparr>"
proof -
  obtain hc st line eff where
    "state_after (showHint s) =
       s\<lparr>hintCount := hc, starsEarned := st, stars_text := line, effects := eff\<rparr>"
    using showHint_replaces [of s] by blast
  then show ?thesis by simp
qed

text \<open>
  Claim C10. Whether a hint is granted, the hint pool is exhausted or the call throws,
  \<open>showHint\<close> leaves the engine, the selected square, the legal targets and the puzzle
  index as they were: the state after the call is the state before it with at most the hint
  count, the star rating, the star display and the record of emitted effects replaced.
\<close>

theorem showHint_frame:
  "game (state_after (showHint s)) = game s \<and>
   selectedSquare (state_after (showHint s)) = selectedSquare s \<and>
   legalMoves (state_after (showHint s)) = legalMoves s \<and>
   currentPuzzleIndex (state_after (showHint s)) = currentPuzzleIndex s \<and>
   state_after (showHint s) =
     s\<lparr>hintCount := hintCount (state_after (showHint s)),
       starsEarned := starsEarned (state_after (showHint s)),
       stars_text := stars_text (state_after (showHint s)),
       effects := effects (state_after (showHint s))\<rparr>"
  by (rule showHint_touches)

theorem showHint_frame_witness:
  "hintCount (state_after (showHint (queen_selected stub_engine))) = 1 \<and>
   game (state_after (showHint (queen_selected stub_engine))) = Some mate_simple \<and>
   selectedSquare (state_after (showHint (queen_selected stub_engine))) = Some ''f7'' \<and>
   legalMoves (state_after (showHint (queen_selected stub_engine))) =
     legalMoves (queen_selected stub_engine) \<and>
   currentPuzzleIndex (state_after (showHint (queen_selected stub_engine))) = 1"
proof -
  have granted: "hintCount (state_after (showHint (queen_selected stub_engine))) = 1"
    by code_simp
  from showHint_frame [of "queen_selected stub_engine"] granted queen_selected_stub
  show ?thesis by simp
qed

lemma move_origin_selected:
  "selectedSquare s = Some sq \<Longrightarrow> sq \<noteq> [] \<Longrightarrow> S \<in> set (legalMoves s) \<Longrightarrow>
   move_origin s S = Some sq"
  by (simp add: move_origin_def)

lemma handleSquareClick_accepted:
  "move_origin s S = Some sq \<Longrightarrow> game s = Some g \<Longrightarrow> move E g sq S ''q'' = Some g' \<Longrightarrow>
   handleSquareClick E S s =
     updateStatus E (s\<lparr>game := Some g', selectedSquare := None, legalMoves := []\<rparr>)"
  by (simp add: handleSquareClick_def)

lemma handleSquareClick_rejected:
  "move_origin s S = Some sq \<Longrightarrow> game s = Some g \<Longrightarrow> move E g sq S ''q'' = None \<Longrightarrow>
   handleSquareClick E S s = Inr s"
  by (simp add: handleSquareClick_def)

lemma updateStatus_keeps_idle:
  assumes "selectedSquare s = None" and "legalMoves s = []"
  shows "selectedSquare (state_after (updateStatus E s)) = None \<and>
         legalMoves (state_after (updateStatus E s)) = []"
  using assms
  by (simp add: updateStatus_def renderBoard_def loadPuzzle_def state_after_def page_defs
      Let_def split: option.splits)

lemma updateStatus_keeps_game:
  assumes "game s = Some g" and "puzzle_at (currentPuzzleIndex s) = Some p"
    and "in_checkmate E g \<or> length (history E g) \<le> mateIn p * 2"
  shows "game (state_after (updateStatus E s)) = Some g"
proof (cases "in_checkmate E g")
  case True
  show ?thesis
    by (simp add: updateStatus_checkmate_eq [OF assms(1) True assms(2)] state_after_def assms(1))
next
  case False
  with assms(3) have "length (history E g) \<le> mateIn p * 2" by simp
  from updateStatus_within_ceiling_eq [OF assms(1) False assms(2) this] assms(1)
  show ?thesis by (simp add: state_after_def)
qed

text \<open>
  Claim C1, amended. A square \<open>sq\<close> is selected and the clicked square \<open>S\<close> is among the
  legal targets. The handler asks the engine for the move from \<open>sq\<close> to \<open>S\<close> with
  promotion \<open>q\<close>. If the engine accepts, the handler is exactly the status evaluation run
  on the state with the engine after the move, nothing selected and no legal target, and
  selection and legal targets are still empty when the handler ends. With the puzzle index
  inside the catalog and an engine that appends accepted moves to its history, the handler
  returns, and the engine it leaves has exactly one half-move more than the engine it
  found, with hint count and star rating untouched, except when the position after the
  move is not checkmate and its half-move count exceeds the move ceiling: then the handler
  leaves a fresh engine built from the puzzle's FEN, with hint count 0 and star rating 3.
  If the engine refuses, the handler returns the state it was given.
\<close>

theorem handleSquareClick_legal_target:
  assumes "selectedSquare s = Some sq" and "sq \<noteq> []" and "S \<in> set (legalMoves s)"
    and "game s = Some g"
  shows "case move E g sq S ''q'' of
           Some g' \<Rightarrow>
             handleSquareClick E S s =
               updateStatus E (s\<lparr>game := Some g', selectedSquare := None, legalMoves := []\<rparr>) \<and>
             selectedSquare (state_after (handleSquareClick E S s)) = None \<and>
             legalMoves (state_after (handleSquareClick E S s)) = [] \<and>
             (\<forall>p. puzzle_at (currentPuzzleIndex s) = Some p \<and> move_extends_history E \<longrightarrow>
                (\<exists>s' gf. handleSquareClick E S s = Inr s' \<and>
                   selectedSquare s' = None \<and> legalMoves s' = [] \<and>
                   currentPuzzleIndex s' = currentPuzzleIndex s \<and> game s' = Some gf \<and>
                   (if \<not> in_checkmate E g' \<and> mateIn p * 2 < length (history E g) + 1
                    then gf = Chess E (fen p) \<and> hintCount s' = 0 \<and> starsEarned s' = 3
                    else gf = g' \<and> length (history E gf) = length (history E g) + 1 \<and>
                         hintCount s' = hintCount s \<and> starsEarned s' = starsEarned s)))
         | None \<Rightarrow> handleSquareClick E S s = Inr s"
proof (cases "move E g sq S ''q''")
  case None
  with assms show ?thesis
    by (simp add: handleSquareClick_rejected [OF move_origin_selected])
next
  case (Some g')
  let ?s1 = "s\<lparr>game := Some g', selectedSquare := None, legalMoves := []\<rparr>"
  have eq: "handleSquareClick E S s = updateStatus E ?s1"
    using assms Some by (simp add: handleSquareClick_accepted [OF move_origin_selected])
  have idle: "selectedSquare (state_after (updateStatus E ?s1)) = None \<and>
              legalMoves (state_after (updateStatus E ?s1)) = []"
    by (rule updateStatus_keeps_idle) simp_all
  have final: "\<exists>s' gf. updateStatus E ?s1 = Inr s' \<and>
                   selectedSquare s' = None \<and> legalMoves s' = [] \<and>
                   currentPuzzleIndex s' = currentPuzzleIndex s \<and> game s' = Some gf \<and>
                   (if \<not> in_checkmate E g' \<and> mateIn p * 2 < length (history E g) + 1
                    then gf = Chess E (fen p) \<and> hintCount s' = 0 \<and> starsEarned s' = 3
                    else gf = g' \<and> length (history E gf) = length (history E g) + 1 \<and>
                         hintCount s' = hintCount s \<and> starsEarned s' = starsEarned s)"
    if p: "puzzle_at (currentPuzzleIndex s) = Some p" and ext: "move_extends_history E" for p
  proof -
    have count: "length (history E g') = length (history E g) + 1"
      using Some ext by (auto simp: move_extends_history_def)
    have g1: "game ?s1 = Some g'" and p1: "puzzle_at (currentPuzzleIndex ?s1) = Some p"
      using p by simp_all
    show ?thesis
    proof (cases "in_checkmate E g'")
      case True
      show ?thesis
        using True count by (simp add: updateStatus_checkmate_eq [OF g1 True p1])
    next
      case False
      show ?thesis
      proof (cases "mateIn p * 2 < length (history E g')")
        case over: True
        show ?thesis
          using False over count
          by (simp add: updateStatus_over_ceiling_eq [OF g1 False p1 over])
      next
        case within: False
        then have le: "length (history E g') \<le> mateIn p * 2" by simp
        show ?thesis
          using False within count
          by (simp add: updateStatus_within_ceiling_eq [OF g1 False p1 le])
      qed
    qed
  qed
  from Some eq idle final show ?thesis by simp
qed

theorem handleSquareClick_legal_target_witness:
  "selectedSquare (queen_selected stub_engine) = Some ''f7'' \<and> ''f7'' \<noteq> [] \<and>
   ''f8'' \<in> set (legalMoves (queen_selected stub_engine)) \<and>
   game (queen_selected stub_engine) = Some mate_simple \<and>
   puzzle_at (currentPuzzleIndex (queen_selected stub_engine)) = Some (puzzles ! 1) \<and>
   move_extends_history stub_engine \<and>
   move stub_engine mate_simple ''f7'' ''f8'' ''q'' = Some queen_on_f8 \<and>
   handleSquareClick stub_engine ''f8'' (queen_selected stub_engine) =
     updateStatus stub_engine
       ((queen_selected stub_engine)
          \<lparr>game := Some queen_on_f8, selectedSquare := None, legalMoves := []\<rparr>) \<and>
   (\<exists>s'. handleSquareClick stub_engine ''f8'' (queen_selected stub_engine) = Inr s' \<and>
      selectedSquare s' = None \<and> legalMoves s' = [] \<and> game s' = Some queen_on_f8 \<and>
      length (history stub_engine queen_on_f8) =
        length (history stub_engine mate_simple) + 1)"
proof -
  let ?s = "queen_selected stub_engine"
  have ne: "''f7'' \<noteq> []" by simp
  have quiet: "\<not> in_checkmate stub_engine queen_on_f8"
    and within: "\<not> mateIn (puzzles ! 1) * 2 < length (history stub_engine mate_simple) + 1"
    by code_simp+
  have at1: "puzzle_at (currentPuzzleIndex ?s) = Some (puzzles ! 1)"
    using puzzle_at_1 queen_selected_stub(4) by simp
  note inst = handleSquareClick_legal_target
         [OF queen_selected_stub(1) ne queen_selected_stub(2) queen_selected_stub(3),
          of stub_engine, unfolded queen_to_f8 option.case]
  from inst have run: "handleSquareClick stub_engine ''f8'' ?s =
        updateStatus stub_engine
          (?s\<lparr>game := Some queen_on_f8, selectedSquare := None, legalMoves := []\<rparr>)"
    by (rule conjunct1)
  from inst have allp: "\<forall>p. puzzle_at (currentPuzzleIndex ?s) = Some p \<and>
        move_extends_history stub_engine \<longrightarrow>
        (\<exists>s' gf. handleSquareClick stub_engine ''f8'' ?s = Inr s' \<and>
           selectedSquare s' = None \<and> legalMoves s' = [] \<and>
           currentPuzzleIndex s' = currentPuzzleIndex ?s \<and> game s' = Some gf \<and>
           (if \<not> in_checkmate stub_engine queen_on_f8 \<and>
               mateIn p * 2 < length (history stub_engine mate_simple) + 1
            then gf = Chess stub_engine (fen p) \<and> hintCount s' = 0 \<and> starsEarned s' = 3
            else gf = queen_on_f8 \<and>
                 length (history stub_engine gf) = length (history stub_engine mate_simple) + 1 \<and>
                 hintCount s' = hintCount ?s \<and> starsEarned s' = starsEarned ?s))"
    by (elim conjE)
  have "\<exists>s' gf. handleSquareClick stub_engine ''f8'' ?s = Inr s' \<and>
           selectedSquare s' = None \<and> legalMoves s' = [] \<and>
           currentPuzzleIndex s' = currentPuzzleIndex ?s \<and> game s' = Some gf \<and>
           (if \<not> in_checkmate stub_engine queen_on_f8 \<and>
               mateIn (puzzles ! 1) * 2 < length (history stub_engine mate_simple) + 1
            then gf = Chess stub_engine (fen (puzzles ! 1)) \<and> hintCount s' = 0 \<and>
                 starsEarned s' = 3
            else gf = queen_on_f8 \<and>
                 length (history stub_engine gf) = length (history stub_engine mate_simple) + 1 \<and>
                 hintCount s' = hintCount ?s \<and> starsEarned s' = starsEarned ?s)"
    by (rule allp [THEN spec, THEN mp]) (intro conjI at1 stub_extends_history)
  then obtain s' gf where r: "handleSquareClick stub_engine ''f8'' ?s = Inr s'"
      "selectedSquare s' = None" "legalMoves s' = []" "game s' = Some gf"
      and branch: "if \<not> in_checkmate stub_engine queen_on_f8 \<and>
               mateIn (puzzles ! 1) * 2 < length (history stub_engine mate_simple) + 1
            then gf = Chess stub_engine (fen (puzzles ! 1)) \<and> hintCount s' = 0 \<and>
                 starsEarned s' = 3
            else gf = queen_on_f8 \<and>
                 length (history stub_engine gf) = length (history stub_engine mate_simple) + 1 \<and>
                 hintCount s' = hintCount ?s \<and> starsEarned s' = starsEarned ?s"
    by (elim exE conjE)
  from within
  have no_reload: "(\<not> in_checkmate stub_engine queen_on_f8 \<and>
      mateIn (puzzles ! 1) * 2 < length (history stub_engine mate_simple) + 1) = False"
    by simp
  note kept = branch [unfolded no_reload if_False]
  from kept have gf: "gf = queen_on_f8" by (rule conjunct1)
  from kept
  have "length (history stub_engine gf) = length (history stub_engine mate_simple) + 1"
    by (elim conjE)
  then have count: "length (history stub_engine queen_on_f8) =
      length (history stub_engine mate_simple) + 1"
    unfolding gf .
  from r gf count
  have fin: "\<exists>s'. handleSquareClick stub_engine ''f8'' ?s = Inr s' \<and>
      selectedSquare s' = None \<and> legalMoves s' = [] \<and> game s' = Some queen_on_f8 \<and>
      length (history stub_engine queen_on_f8) =
        length (history stub_engine mate_simple) + 1"
    by (intro exI [of _ s']) (simp only: simp_thms)
  show ?thesis
    by (intro conjI queen_selected_stub(1) ne queen_selected_stub(2) queen_selected_stub(3)
        at1 stub_extends_history queen_to_f8 run fin)
qed

text \<open>
  Claim C1 as stated, with the half-move count one higher after every accepted move, fails:
  on ``Mate simple'', two half-moves played, the queen on f6 is selected and f5 is a legal
  target; the engine accepts the move, the third half-move exceeds the ceiling of two
  without checkmate, and the handler leaves a fresh engine with no half-move played.
\<close>

theorem accepted_move_resets_count:
  "reachable stub_engine third_ply_pending \<and>
   selectedSquare third_ply_pending = Some ''f6'' \<and>
   ''f5'' \<in> set (legalMoves third_ply_pending) \<and>
   game third_ply_pending = Some two_plies \<and>
   length (history stub_engine two_plies) = 2 \<and>
   move stub_engine two_plies ''f6'' ''f5'' ''q'' = Some three_plies \<and>
   game (state_after (handleSquareClick stub_engine ''f5'' third_ply_pending)) = Some mate_simple \<and>
   length (history stub_engine mate_simple) = 0 \<and>
   length (history stub_engine mate_simple) \<noteq> length (history stub_engine two_plies) + 1"
proof -
  have "reachable stub_engine third_ply_pending"
    unfolding third_ply_pending_def
    by (intro reachable.reach_click queen_selected_reachable)
  moreover have "selectedSquare third_ply_pending = Some ''f6''"
    "''f5'' \<in> set (legalMoves third_ply_pending)"
    "game third_ply_pending = Some two_plies"
    by code_simp+
  moreover have "length (history stub_engine two_plies) = 2"
    "move stub_engine two_plies ''f6'' ''f5'' ''q'' = Some three_plies"
    "length (history stub_engine mate_simple) = 0"
    "length (history stub_engine mate_simple) \<noteq> length (history stub_engine two_plies) + 1"
    by code_simp+
  moreover have "game (state_after (handleSquareClick stub_engine ''f5'' third_ply_pending))
      = Some mate_simple"
    by code_simp
  ultimately show ?thesis by blast
qed

text \<open>
  Claim C8, amended. With an engine present and the puzzle index inside the catalog, every
  call of the handler except a move attempt that the engine refuses re-renders the board:
  the number of renderings grows and the board shown is the rendering of the final
  position, selection and legal targets. A refused move attempt returns the state it was
  given, with nothing rendered.
\<close>

theorem handleSquareClick_rerenders:
  assumes "game s = Some g" and "puzzle_at (currentPuzzleIndex s) = Some p"
  shows "if move_rejected E S s then handleSquareClick E S s = Inr s
         else (\<exists>s' g'. handleSquareClick E S s = Inr s' \<and>
                 render_count s < render_count s' \<and>
                 game s' = Some g' \<and>
                 chessBoard s' =
                   render_squares (board E g') (selectedSquare s') (legalMoves s'))"
  using assms
  by (auto simp: move_rejected_def handleSquareClick_def updateStatus_def renderBoard_def
      loadPuzzle_def render_count_def page_defs Let_def split: option.splits)


theorem handleSquareClick_rerenders_witness:
  "game (queen_selected stub_engine) = Some mate_simple \<and>
   puzzle_at (currentPuzzleIndex (queen_selected stub_engine)) = Some (puzzles ! 1) \<and>
   \<not> move_rejected stub_engine ''f8'' (queen_selected stub_engine) \<and>
   (\<exists>s' g'. handleSquareClick stub_engine ''f8'' (queen_selected stub_engine) = Inr s' \<and>
      render_count (queen_selected stub_engine) < render_count s' \<and>
      game s' = Some g' \<and>
      chessBoard s' = render_squares (board stub_engine g') (selectedSquare s') (legalMoves s'))"
proof -
  have at1: "puzzle_at (currentPuzzleIndex (queen_selected stub_engine)) = Some (puzzles ! 1)"
    using puzzle_at_1 queen_selected_stub(4) by simp
  have acc: "\<not> move_rejected stub_engine ''f8'' (queen_selected stub_engine)"
    by code_simp
  from handleSquareClick_rerenders [OF queen_selected_stub(3) at1, of stub_engine "''f8''"]
       acc at1 queen_selected_stub(3)
  show ?thesis by simp
qed

text \<open>
  Claim C8 as stated, with a re-render also after a refused move, fails: with the queen on
  f7 selected and f8 among the legal targets, the refusing engine rejects the move and the
  handler ends without rendering.
\<close>

theorem rejected_click_not_rendered:
  "selectedSquare (queen_selected refusing_engine) = Some ''f7'' \<and>
   ''f8'' \<in> set (legalMoves (queen_selected refusing_engine)) \<and>
   game (queen_selected refusing_engine) = Some mate_simple \<and>
   move refusing_engine mate_simple ''f7'' ''f8'' ''q'' = None \<and>
   render_count (state_after (handleSquareClick refusing_engine ''f8''
       (queen_selected refusing_engine))) = render_count (queen_selected refusing_engine)"
  by code_simp

lemma selection_consistent_cong:
  "selectedSquare s' = selectedSquare s \<Longrightarrow> legalMoves s' = legalMoves s \<Longrightarrow>
   game s' = game s \<Longrightarrow> selection_consistent E s' = selection_consistent E s"
  by (simp add: selection_consistent_def split: option.splits)

lemma selection_consistent_idle:
  "selectedSquare s = None \<Longrightarrow> legalMoves s = [] \<Longrightarrow> selection_consistent E s"
  by (simp add: selection_consistent_def)

lemma consistent_loadPuzzle:
  assumes "selection_consistent E s"
  shows "selection_consistent E (state_after (loadPuzzle E i s))"
proof (cases "puzzle_at i")
  case None
  have "selection_consistent E (s\<lparr>hintCount := 0, starsEarned := 3\<rparr>) = selection_consistent E s"
    by (rule selection_consistent_cong) simp_all
  with None assms show ?thesis by (simp add: loadPuzzle_undefined state_after_def)
next
  case (Some p)
  show ?thesis
    by (rule selection_consistent_idle) (simp_all add: loadPuzzle_defined [OF Some] state_after_def)
qed

lemma consistent_showHint:
  assumes "selection_consistent E s"
  shows "selection_consistent E (state_after (showHint s))"
proof -
  have "selection_consistent E (state_after (showHint s)) = selection_consistent E s"
    using showHint_touches [of s] by (intro selection_consistent_cong) simp_all
  with assms show ?thesis by simp
qed

lemma consistent_updateStatus:
  assumes "selectedSquare s = None" and "legalMoves s = []"
  shows "selection_consistent E (state_after (updateStatus E s))"
  using updateStatus_keeps_idle [OF assms, of E] by (simp add: selection_consistent_idle)

lemma consistent_renderBoard:
  assumes "selection_consistent E s"
  shows "selection_consistent E (state_after (renderBoard E s))"
proof -
  have "selection_consistent E (state_after (renderBoard E s)) = selection_consistent E s"
    by (rule selection_consistent_cong)
       (simp_all add: renderBoard_def state_after_def Let_def split: option.splits)
  with assms show ?thesis by simp
qed

lemma consistent_handleSquareClick:
  assumes "selection_consistent E s"
  shows "selection_consistent E (state_after (handleSquareClick E S s))"
proof (cases "move_origin s S")
  case (Some sq)
  show ?thesis
  proof (cases "game s")
    case None
    with Some assms show ?thesis by (simp add: handleSquareClick_def state_after_def)
  next
    case g: (Some g)
    show ?thesis
    proof (cases "move E g sq S ''q''")
      case None
      with Some g assms show ?thesis by (simp add: handleSquareClick_def state_after_def)
    next
      case (Some g')
      with \<open>move_origin s S = Some sq\<close> g show ?thesis
        by (simp add: handleSquareClick_def consistent_updateStatus)
    qed
  qed
next
  case None
  have idle: "selection_consistent E (s\<lparr>selectedSquare := None, legalMoves := []\<rparr>)"
    by (simp add: selection_consistent_def)
  show ?thesis
  proof (cases "game s")
    case g: None
    have thrown: "selection_consistent E (state_after (Inl (TypeError, s)))"
      using assms by (simp add: state_after_def)
    from None g idle thrown show ?thesis
      by (auto simp: handleSquareClick_def intro: consistent_renderBoard)
  next
    case g: (Some g)
    have sel: "selection_consistent E
      (s\<lparr>selectedSquare := Some S, legalMoves := map to_sq (moves E g S)\<rparr>)"
      using g by (simp add: selection_consistent_def)
    from None g idle sel show ?thesis
      by (auto simp: handleSquareClick_def intro: consistent_renderBoard split: option.splits)
  qed
qed

lemma consistent_nextPuzzle:
  assumes "selection_consistent E s"
  shows "selection_consistent E (state_after (nextPuzzle E s))"
proof -
  let ?s3 = "updateProgress
     (if length puzzles \<le> currentPuzzleIndex s + 1
      then (alert catalog_complete_message (s\<lparr>currentPuzzleIndex := currentPuzzleIndex s + 1\<rparr>))
             \<lparr>currentPuzzleIndex := 0\<rparr>
      else s\<lparr>currentPuzzleIndex := currentPuzzleIndex s + 1\<rparr>)"
  have "selection_consistent E ?s3 = selection_consistent E s"
    by (rule selection_consistent_cong) (simp_all add: updateProgress_eq alert_def)
  with assms have "selection_consistent E ?s3" by simp
  then have "selection_consistent E (state_after (loadPuzzle E (currentPuzzleIndex ?s3) ?s3))"
    by (rule consistent_loadPuzzle)
  moreover have "nextPuzzle E s = loadPuzzle E (currentPuzzleIndex ?s3) ?s3"
    by (simp add: nextPuzzle_def Let_def)
  ultimately show ?thesis by simp
qed

lemma consistent_init:
  "at_start s0 \<Longrightarrow> selection_consistent E (state_after (init E s0))"
  by (cases "puzzle_at (currentPuzzleIndex s0)")
     (simp_all add: init_def loadPuzzle_defined loadPuzzle_undefined state_after_def
        selection_consistent_def updateProgress_eq at_start_def)

lemma reachable_consistent: "reachable E s \<Longrightarrow> selection_consistent E s"
  by (induction rule: reachable.induct)
     (simp_all add: consistent_init consistent_loadPuzzle consistent_showHint
        consistent_handleSquareClick consistent_nextPuzzle)

text \<open>
  Claim C7. In every state reachable from program start by \<open>init\<close> followed by any
  sequence of \<open>loadPuzzle\<close>, \<open>showHint\<close>, \<open>handleSquareClick\<close> and \<open>nextPuzzle\<close> calls,
  exactly one of the two holds: no square is selected and there is no legal target; or a
  square is selected and the legal targets are the destinations the engine reports for
  that square in the current position.
\<close>

theorem selection_invariant:
  assumes "reachable E s"
  shows "(selectedSquare s = None \<and> legalMoves s = []) \<noteq>
         (\<exists>sq g. selectedSquare s = Some sq \<and> game s = Some g \<and>
                  legalMoves s = map to_sq (moves E g sq) \<and>
                  set (legalMoves s) = to_sq ` set (moves E g sq))"
  using reachable_consistent [OF assms]
  by (auto simp: selection_consistent_def split: option.splits)

theorem selection_invariant_witness:
  "reachable stub_engine (queen_selected stub_engine) \<and>
   selectedSquare (queen_selected stub_engine) = Some ''f7'' \<and>
   game (queen_selected stub_engine) = Some mate_simple \<and>
   legalMoves (queen_selected stub_engine) = map to_sq (moves stub_engine mate_simple ''f7'')"
proof -
  from selection_invariant [OF queen_selected_reachable, of stub_engine]
       queen_selected_stub queen_selected_reachable [of stub_engine]
  show ?thesis by auto
qed

section \<open>The same properties in \<open>src/unnamed/part_000\<close>\<close>

text \<open>
  The drag-and-drop file has the same catalog up to the FEN of the first puzzle, and its
  \<open>showHint\<close> and \<open>updateProgress\<close> are the functions above. Its \<open>loadPuzzle\<close> resets the
  hint count, the star rating, the engine and the widget and is idempotent on the
  variables; its \<open>updateStatus\<close> announces checkmate without reloading and, past the move
  ceiling, alerts and reloads; \<open>onDrop\<close> is the status evaluation after an accepted move
  and a snapback, with nothing changed, after a refused one; \<open>nextPuzzle\<close> wraps at the
  end of the catalog.
\<close>

lemma length_puzzles0: "length puzzles0 = 3"
  by (simp add: puzzles0_def)

lemma puzzle0_at_in_range: "i < length puzzles0 \<Longrightarrow> puzzle0_at i = Some (puzzles0 ! i)"
  by (simp add: puzzle0_at_def)

lemma puzzles0_differs_in_fen:
  "puzzles0 =
     (puzzles ! 0)\<lparr>fen := ''r1bq2r1/b4pk1/p1pp1p2/1p2pP2/1P2P1PB/3P4/1PPQ2P1/R3K2R w''\<rparr>
     # tl puzzles"
  by (simp add: puzzles_def puzzles0_def)

lemma puzzle0_at_solution:
  "map_option solution (puzzle0_at i) = map_option solution (puzzle_at i)"
proof -
  consider "i = 0" | "i = 1" | "i = 2" | "3 \<le> i" by linarith
  then show ?thesis
    by cases (simp_all add: puzzle0_at_def puzzle_at_def puzzles_def puzzles0_def)
qed

lemma showHint0_eq: "showHint0 s = showHint s"
proof (cases "puzzle_at (currentPuzzleIndex s)")
  case None
  with puzzle0_at_solution [of "currentPuzzleIndex s"]
  have "puzzle0_at (currentPuzzleIndex s) = None" by simp
  with None show ?thesis by (simp add: showHint0_def showHint_def)
next
  case (Some p)
  with puzzle0_at_solution [of "currentPuzzleIndex s"]
  obtain p0 where p0: "puzzle0_at (currentPuzzleIndex s) = Some p0" "solution p0 = solution p"
    by auto
  with Some show ?thesis by (simp add: showHint0_def showHint_def)
qed

lemma updateProgress0_eq: "updateProgress0 s = updateProgress s"
  by (simp add: updateProgress0_def updateProgress_def length_puzzles length_puzzles0)

lemma loadPuzzle0_defined:
  "puzzle0_at i = Some p \<Longrightarrow>
   loadPuzzle0 E i s =
     Inr (s\<lparr>hintCount := 0, starsEarned := 3, game := Some (Chess E (fen p)),
            info_text := info_line i p,
            stars_text := star_filled @ star_filled @ star_filled,
            nextBtn_display := ''none'',
            board_widget :=
              Some \<lparr>cfg_position = fen p,
                    cfg_orientation = (if side p = ''w'' then ''white'' else ''black''),
                    cfg_draggable = True, cfg_moveSpeed = ''fast''\<rparr>,
            effects := effects s @
              (case board_widget s of Some b \<Rightarrow> [DestroyBoard] | None \<Rightarrow> []) @
              [CreateBoard
                 \<lparr>cfg_position = fen p,
                  cfg_orientation = (if side p = ''w'' then ''white'' else ''black''),
                  cfg_draggable = True, cfg_moveSpeed = ''fast''\<rparr>,
               SetTextContent ''info'' (info_line i p),
               SetTextContent ''stars'' (star_filled @ star_filled @ star_filled),
               SetDisplay ''nextBtn'' ''none'']\<rparr>)"
  by (simp add: loadPuzzle0_def page_defs Let_def split: option.splits)

lemma loadPuzzle0_undefined:
  "puzzle0_at i = None \<Longrightarrow>
   loadPuzzle0 E i s = Inl (TypeError, s\<lparr>hintCount := 0, starsEarned := 3\<rparr>)"
  by (simp add: loadPuzzle0_def)

lemma loadPuzzle0_resets:
  assumes "i < length puzzles0"
  shows "\<exists>s'. loadPuzzle0 E i s = Inr s' \<and>
           hintCount s' = 0 \<and> starsEarned s' = 3 \<and>
           game s' = Some (Chess E (fen (puzzles0 ! i))) \<and>
           map_option cfg_position (board_widget s') = Some (fen (puzzles0 ! i)) \<and>
           stars_text s' = concat (replicate 3 star_filled) \<and>
           nextBtn_display s' = ''none'' \<and>
           currentPuzzleIndex s' = currentPuzzleIndex s"
  using assms by (simp add: loadPuzzle0_defined puzzle0_at_in_range numeral_3_eq_3)

lemma loadPuzzle0_idempotent:
  "forget_effects (state_after (loadPuzzle0 E i (state_after (loadPuzzle0 E i s)))) =
     forget_effects (state_after (loadPuzzle0 E i s))"
  by (cases "puzzle0_at i")
     (simp_all add: loadPuzzle0_defined loadPuzzle0_undefined state_after_def forget_effects_def)

lemma updateStatus0_checkmate:
  assumes "game s = Some g" and "in_checkmate E g"
    and "puzzle0_at (currentPuzzleIndex s) = Some p"
  shows "updateStatus0 E s =
     Inr (s\<lparr>nextBtn_display := ''inline-block'',
            effects := effects s @
              [Alert (solved_message p), SetDisplay ''nextBtn'' ''inline-block'']\<rparr>)"
  using assms by (simp add: updateStatus0_def page_defs)

lemma updateStatus0_ceiling_reload:
  assumes "game s = Some g" and "\<not> in_checkmate E g"
    and "puzzle0_at (currentPuzzleIndex s) = Some p"
    and "mateIn p * 2 < length (history E g)"
  shows "\<exists>s'. updateStatus0 E s =
             loadPuzzle0 E (currentPuzzleIndex s) (alert too_many_moves_message s) \<and>
           updateStatus0 E s = Inr s' \<and>
           alerts_since s s' = [too_many_moves_message] \<and>
           hintCount s' = 0 \<and> starsEarned s' = 3 \<and>
           game s' = Some (Chess E (fen p)) \<and>
           map_option cfg_position (board_widget s') = Some (fen p) \<and>
           currentPuzzleIndex s' = currentPuzzleIndex s"
  using assms
  by (simp add: updateStatus0_def loadPuzzle0_defined [of _ p] alerts_since_def page_defs
      split: option.splits)

lemma onDrop_accepted:
  "game s = Some g \<Longrightarrow> move E g source target ''q'' = Some g' \<Longrightarrow>
   onDrop E source target s =
     (case updateStatus0 E (s\<lparr>game := Some g'\<rparr>) of
        Inl e \<Rightarrow> Inl e
      | Inr s' \<Rightarrow> Inr (None, s'))"
  by (simp add: onDrop_def)

lemma onDrop_rejected:
  "game s = Some g \<Longrightarrow> move E g source target ''q'' = None \<Longrightarrow>
   onDrop E source target s = Inr (Some ''snapback'', s)"
  by (simp add: onDrop_def)

lemma nextPuzzle0_advances:
  "\<exists>s'. nextPuzzle0 E s = Inr s' \<and>
     currentPuzzleIndex s' =
       (if length puzzles0 \<le> currentPuzzleIndex s + 1 then 0 else currentPuzzleIndex s + 1) \<and>
     currentPuzzleIndex s' < length puzzles0 \<and>
     alerts_since s s' =
       (if length puzzles0 \<le> currentPuzzleIndex s + 1 then [catalog_complete_message] else []) \<and>
     hintCount s' = 0 \<and> starsEarned s' = 3"
proof (cases "length puzzles0 \<le> currentPuzzleIndex s + 1")
  case True
  have p0: "puzzle0_at 0 = Some (puzzles0 ! 0)"
    by (rule puzzle0_at_in_range) (simp add: length_puzzles0)
  from True show ?thesis
    by (simp add: Let_def nextPuzzle0_def updateProgress0_def set_progress_def alert_def
        loadPuzzle0_defined [OF p0] alerts_since_def length_puzzles0 split: option.splits)
next
  case False
  then have lt: "currentPuzzleIndex s + 1 < length puzzles0" by simp
  have p1: "puzzle0_at (Suc (currentPuzzleIndex s)) = Some (puzzles0 ! Suc (currentPuzzleIndex s))"
    using lt by (intro puzzle0_at_in_range) simp
  from False lt show ?thesis
    by (simp add: Let_def nextPuzzle0_def updateProgress0_def set_progress_def alert_def
        loadPuzzle0_defined [OF p1] alerts_since_def split: option.splits)
qed

lemma showHint0_frame:
  "game (state_after (showHint0 s)) = game s \<and>
   board_widget (state_after (showHint0 s)) = board_widget s \<and>
   currentPuzzleIndex (state_after (showHint0 s)) = currentPuzzleIndex s \<and>
   state_after (showHint0 s) =
     s\<lparr>hintCount := hintCount (state_after (showHint0 s)),
       starsEarned := starsEarned (state_after (showHint0 s)),
       stars_text := stars_text (state_after (showHint0 s)),
       effects := effects (state_after (showHint0 s))\<rparr>"
proof -
  obtain hc st line eff where
    "state_after (showHint0 s) =
       s\<lparr>hintCount := hc, starsEarned := st, stars_text := line, effects := eff\<rparr>"
    using showHint_replaces [of s] by (auto simp: showHint0_eq)
  then show ?thesis by simp
qed

end
